theory Spec2Isabelle
  imports Complex_Main
begin

section \<open>JavaScript values\<close>

text \<open>
  The bot is JavaScript (index.js). A property of an object read from a JSON payload is
  absent (\<open>undefined\<close>), \<open>null\<close>, or a value. Numbers are IEEE doubles in the
  source; the model uses exact rationals plus \<open>NaN\<close>, which is what the arithmetic of
  the bot (differences of timestamps, division by 60 and 1000) computes as long as no
  rounding occurs. Strings are \<open>string\<close>; non-ASCII text of the source file is kept as
  the bytes the file holds.
\<close>

datatype 'a js = Undefined | Null | Val 'a

datatype jsnum = Num rat | NaN

text \<open>Truthiness as \<open>if (x)\<close>, \<open>!x\<close>, \<open>x || d\<close> and \<open>c ? a : b\<close> test it.\<close>

fun truthy_str :: "string js \<Rightarrow> bool" where
  "truthy_str (Val s) = (s \<noteq> [])"
| "truthy_str _ = False"

fun truthy_num :: "jsnum js \<Rightarrow> bool" where
  "truthy_num (Val (Num r)) = (r \<noteq> 0)"
| "truthy_num _ = False"

text \<open>\<open>x > n\<close> for a number \<open>n\<close>: \<open>null\<close> converts to 0, \<open>undefined\<close> and
  \<open>NaN\<close> compare false.\<close>

fun js_gt :: "jsnum js \<Rightarrow> rat \<Rightarrow> bool" where
  "js_gt (Val (Num r)) n = (r > n)"
| "js_gt Null n = (0 > n)"
| "js_gt _ n = False"

fun num_sub :: "jsnum \<Rightarrow> jsnum \<Rightarrow> jsnum" where
  "num_sub (Num a) (Num b) = Num (a - b)"
| "num_sub _ _ = NaN"

fun num_div :: "jsnum \<Rightarrow> rat \<Rightarrow> jsnum" where
  "num_div (Num a) d = Num (a / d)"
| "num_div NaN d = NaN"

text \<open>Template literals render a number in decimal (integers below \<open>10^21\<close>).\<close>

fun show_nat :: "nat \<Rightarrow> string" where
  "show_nat n =
     (if n < 10 then [''0123456789'' ! n]
      else show_nat (n div 10) @ [''0123456789'' ! (n mod 10)])"

declare show_nat.simps [simp del]

definition show_int :: "int \<Rightarrow> string" where
  "show_int i = (if i < 0 then CHR ''-'' # show_nat (nat (- i)) else show_nat (nat i))"

text \<open>\<open>${x}\<close> for a string property: \<open>undefined\<close> and \<open>null\<close> print as words.\<close>

fun show_str :: "string js \<Rightarrow> string" where
  "show_str (Val s) = s"
| "show_str Undefined = ''undefined''"
| "show_str Null = ''null''"

section \<open>Data model\<close>

text \<open>A contest as the composer and the warning scan read it. The LeetCode adapter passes
  the API's objects through (title, startTime, duration, description); the CodeChef adapter
  builds title, startTime, endTime, duration and url; the warning scan adds the property
  \<open>platform\<close> (here \<open>platform_tag\<close>, the name \<open>platform\<close> being the parameter of the
  functions below).\<close>

record contest =
  title :: "string js"
  startTime :: "jsnum js"
  endTime :: "jsnum js"
  duration :: "jsnum js"
  url :: "string js"
  description :: "string js"
  platform_tag :: "string js"

text \<open>An entry of \<open>future_contests\<close> in the CodeChef response.\<close>

record codechef_entry =
  contest_name :: "string js"
  contest_start_date :: "string js"
  contest_end_date :: "string js"
  contest_code :: "string js"

text \<open>An embed as \<open>EmbedBuilder\<close> accumulates it, and what \<open>channel.send\<close> is given:
  a plain string, or an object with \<open>content\<close> and \<open>embeds\<close>.\<close>

record embed_field =
  field_name :: string
  field_value :: string

record embed =
  embed_title :: string
  color :: string
  timestamp :: int
  footer :: string
  embed_fields :: "embed_field list"

datatype payload = Plain string | Obj (content_of: string) (embeds_of: "embed list")

datatype message = Message (channel_of: string) (payload_of: payload)

text \<open>The configuration read from the environment.\<close>

record config =
  CHANNEL_ID :: string
  BACKUP_CHANNEL_ID :: "string option"
  DISCORD_ADMIN_ID :: "string option"

definition RETRY_DELAY :: nat where
  "RETRY_DELAY = 60000"

definition MAX_RETRIES :: nat where
  "MAX_RETRIES = 3"

section \<open>Effects\<close>

text \<open>
  Every effect of the bot is an entry of a trace, oldest first. \<open>Invoke p\<close> is one call of
  the fetch operation for platform \<open>p\<close> (one HTTP request); \<open>Delay ms\<close> is an awaited
  \<open>setTimeout(resolve, ms)\<close>; \<open>ChannelSend c p err\<close> is one \<open>channel.send\<close> on
  channel \<open>c\<close> with its outcome (\<open>None\<close>: delivered, \<open>Some m\<close>: rejected with message
  \<open>m\<close>); \<open>UserFetch\<close> and \<open>UserSend\<close> are the two steps of the direct message to the
  administrator; \<open>SetTimer ms c\<close> is a deferred warning armed for contest \<open>c\<close>;
  \<open>CronSchedule e n\<close> is \<open>cron.schedule\<close> called for the job named \<open>n\<close>.
\<close>

datatype event =
    Log string
  | Invoke string
  | Delay nat
  | ChannelSend string payload "string option"
  | UserFetch string "string option"
  | UserSend string string "string option"
  | React message string "string option"
  | SetLastCheck string
  | SetTimer jsnum contest
  | CronSchedule string string "string option"

type_synonym trace = "event list"

text \<open>
  The world outside the process answers each request; an answer may depend on everything
  that happened before (the trace so far), so an operation may fail now and succeed later.
  A rejected promise or a thrown error is \<open>Inl\<close> (or \<open>Some\<close>) of its message.
  \<open>addFields fs f\<close> is the validation of \<open>EmbedBuilder.addFields\<close> when the embed holds
  the fields \<open>fs\<close> and is given \<open>f\<close>: the builder of discord.js bounds the number of
  fields and the length of a name and of a value, and throws on a field it refuses.
\<close>

record env =
  leetcode_api :: "trace \<Rightarrow> string + contest list option"
  codechef_api :: "trace \<Rightarrow> string + codechef_entry list option"
  date_now :: "trace \<Rightarrow> int"
  iso_now :: "trace \<Rightarrow> string"
  getTime :: "string js \<Rightarrow> jsnum"
  toLocaleString :: "jsnum \<Rightarrow> string + string"
  JSON_stringify :: "contest \<Rightarrow> string"
  addFields :: "embed_field list \<Rightarrow> embed_field \<Rightarrow> string option"
  cache_get :: "trace \<Rightarrow> string \<Rightarrow> bool"
  channel_send :: "trace \<Rightarrow> string \<Rightarrow> payload \<Rightarrow> string option"
  users_fetch :: "trace \<Rightarrow> string \<Rightarrow> string option"
  user_send :: "trace \<Rightarrow> string \<Rightarrow> string \<Rightarrow> string option"
  react :: "trace \<Rightarrow> message \<Rightarrow> string \<Rightarrow> string option"
  cron_validate :: "string \<Rightarrow> string + bool"
  cron_schedule :: "trace \<Rightarrow> string \<Rightarrow> string option"

text \<open>\<open>logToFile\<close>: the line goes to the log file (a failure to append is caught) and to
  the console; the trace keeps the message.\<close>

definition logToFile :: "string \<Rightarrow> trace \<Rightarrow> trace" where
  "logToFile message t = t @ [Log message]"

section \<open>Retry wrapper\<close>

text \<open>
  \<open>fetchWithRetry(fetchFunc, platform, retries = 0)\<close>. The operation is given by its
  outcome at a point of the trace.
\<close>

function fetchWithRetry ::
  "(trace \<Rightarrow> string + 'a list) \<Rightarrow> string \<Rightarrow> nat \<Rightarrow> trace \<Rightarrow> 'a list \<times> trace" where
  "fetchWithRetry fetchFunc platform retries t =
     (let t0 = t @ [Invoke platform] in
      case fetchFunc t0 of
        Inr result \<Rightarrow> (result, t0)
      | Inl error_message \<Rightarrow>
          (let t1 = logToFile (''Error fetching '' @ platform @ '' contests (attempt ''
                      @ show_nat (retries + 1) @ ''/'' @ show_nat MAX_RETRIES @ ''): ''
                      @ error_message) t0
           in if retries < MAX_RETRIES then
                (let t2 = logToFile (''Retrying '' @ platform @ '' fetch in ''
                            @ show_nat (RETRY_DELAY div 1000) @ '' seconds...'') t1;
                     t3 = t2 @ [Delay RETRY_DELAY]
                 in fetchWithRetry fetchFunc platform (retries + 1) t3)
              else ([], logToFile (''All '' @ platform @ '' fetch attempts failed. Giving up.'') t1)))"
  by pat_completeness auto
termination
  by (relation "measure (\<lambda>(fetchFunc, platform, retries, t). MAX_RETRIES - retries)") auto

declare fetchWithRetry.simps [simp del]

section \<open>Text constants\<close>

text \<open>The pictographs of the message templates, as the bytes of the source file.\<close>

definition warning_sign :: string where
  "warning_sign = [CHR 0xC3, CHR 0xA2, CHR 0xC5, CHR 0xA1, CHR 0xC2, CHR 0xA0, CHR 0xC3, CHR 0xAF, CHR 0xC2, CHR 0xB8]"

definition mailbox :: string where
  "mailbox = [CHR 0xC3, CHR 0xB0, CHR 0xC5, CHR 0xB8, CHR 0xE2, CHR 0x80, CHR 0x9C, CHR 0xC2, CHR 0xAD]"

definition rocket :: string where
  "rocket = [CHR 0xC3, CHR 0xB0, CHR 0xC5, CHR 0xB8, CHR 0xC5, CHR 0xA1, CHR 0xE2, CHR 0x82, CHR 0xAC]"

definition party :: string where
  "party = [CHR 0xC3, CHR 0xB0, CHR 0xC5, CHR 0xB8, CHR 0xC5, CHR 0xBD, CHR 0xE2, CHR 0x80, CHR 0xB0]"

definition fire :: string where
  "fire = [CHR 0xC3, CHR 0xB0, CHR 0xC5, CHR 0xB8, CHR 0xE2, CHR 0x80, CHR 0x9D, CHR 0xC2, CHR 0xA5]"

definition calendar :: string where
  "calendar = [CHR 0xC3, CHR 0xB0, CHR 0xC5, CHR 0xB8, CHR 0xE2, CHR 0x80, CHR 0x9C, CHR 0xE2, CHR 0x80, CHR 0xA6]"

definition hourglass :: string where
  "hourglass = [CHR 0xC3, CHR 0xA2, CHR 0xC2, CHR 0xB3]"

definition link_sign :: string where
  "link_sign = [CHR 0xC3, CHR 0xB0, CHR 0xC5, CHR 0xB8, CHR 0xE2, CHR 0x80, CHR 0x9D, CHR 0xE2, CHR 0x80, CHR 0x94]"

definition memo :: string where
  "memo = [CHR 0xC3, CHR 0xB0, CHR 0xC5, CHR 0xB8, CHR 0xE2, CHR 0x80, CHR 0x9C]"

definition boom :: string where
  "boom = [CHR 0xC3, CHR 0xB0, CHR 0xC5, CHR 0xB8, CHR 0xE2, CHR 0x80, CHR 0x99, CHR 0xC2, CHR 0xA5]"

definition clover :: string where
  "clover = [CHR 0xC3, CHR 0xB0, CHR 0xC5, CHR 0xB8, CHR 0xE2, CHR 0x82, CHR 0xAC]"

definition check_mark :: string where
  "check_mark = [CHR 0xC3, CHR 0xA2, CHR 0xC5, CHR 0x93, CHR 0xE2, CHR 0x80, CHR 0xA6]"

definition newline :: string where
  "newline = [CHR 0x0A]"

definition apostrophe :: string where
  "apostrophe = [CHR 0x27]"

section \<open>More JavaScript arithmetic\<close>

text \<open>\<open>ToNumber\<close> of a property, the arithmetic of the warning scan and of the formatter,
  \<open>x || 0\<close> and \<open>x || 'text'\<close>.\<close>

fun to_number :: "jsnum js \<Rightarrow> jsnum" where
  "to_number (Val n) = n"
| "to_number Null = Num 0"
| "to_number Undefined = NaN"

fun num_mul :: "jsnum \<Rightarrow> rat \<Rightarrow> jsnum" where
  "num_mul (Num a) d = Num (a * d)"
| "num_mul NaN d = NaN"

fun num_gt :: "jsnum \<Rightarrow> rat \<Rightarrow> bool" where
  "num_gt (Num a) b = (a > b)"
| "num_gt NaN b = False"

fun num_lt :: "jsnum \<Rightarrow> rat \<Rightarrow> bool" where
  "num_lt (Num a) b = (a < b)"
| "num_lt NaN b = False"

fun num_or_zero :: "jsnum js \<Rightarrow> rat" where
  "num_or_zero (Val (Num r)) = r"
| "num_or_zero _ = 0"

fun str_or :: "string js \<Rightarrow> string \<Rightarrow> string" where
  "str_or (Val s) d = (if s \<noteq> [] then s else d)"
| "str_or _ d = d"

fun show_result :: "bool js \<Rightarrow> string" where
  "show_result (Val b) = (if b then ''true'' else ''false'')"
| "show_result Undefined = ''undefined''"
| "show_result Null = ''null''"

section \<open>Contest source adapters\<close>

text \<open>
  The operation \<open>fetchLeetCodeContests\<close> hands to \<open>fetchWithRetry\<close>: the request may be
  rejected; a response without \<open>data.data.allContests\<close> (\<open>None\<close>) throws; otherwise the
  listing is filtered against \<open>Math.floor(Date.now() / 1000)\<close>.
\<close>

definition fetchLeetCodeContests_op :: "env \<Rightarrow> trace \<Rightarrow> string + contest list" where
  "fetchLeetCodeContests_op env t =
     (case leetcode_api env t of
        Inl error_message \<Rightarrow> Inl error_message
      | Inr None \<Rightarrow> Inl ''Invalid response structure from LeetCode API''
      | Inr (Some contests) \<Rightarrow>
          (let now = date_now env t div 1000
           in Inr (filter (\<lambda>contest. js_gt (startTime contest) (of_int now)) contests)))"

definition fetchLeetCodeContests :: "env \<Rightarrow> trace \<Rightarrow> contest list \<times> trace" where
  "fetchLeetCodeContests env t = fetchWithRetry (fetchLeetCodeContests_op env) ''LeetCode'' 0 t"

text \<open>The object the CodeChef adapter builds from one entry of \<open>future_contests\<close>.\<close>

definition codechef_contest :: "env \<Rightarrow> codechef_entry \<Rightarrow> contest" where
  "codechef_contest env c =
     \<lparr> title = Val (str_or (contest_name c) ''Unnamed Contest''),
       startTime = Val (num_div (getTime env (contest_start_date c)) 1000),
       endTime = Val (num_div (getTime env (contest_end_date c)) 1000),
       duration = Val (num_div (num_sub (getTime env (contest_end_date c))
                                        (getTime env (contest_start_date c))) 60),
       url = Val (''https://www.codechef.com/'' @ show_str (contest_code c)),
       description = Undefined,
       platform_tag = Undefined \<rparr>"

definition fetchCodeChefContests_op :: "env \<Rightarrow> trace \<Rightarrow> string + contest list" where
  "fetchCodeChefContests_op env t =
     (case codechef_api env t of
        Inl error_message \<Rightarrow> Inl error_message
      | Inr None \<Rightarrow> Inl ''Invalid response structure from CodeChef API''
      | Inr (Some futureContests) \<Rightarrow> Inr (map (codechef_contest env) futureContests))"

definition fetchCodeChefContests :: "env \<Rightarrow> trace \<Rightarrow> contest list \<times> trace" where
  "fetchCodeChefContests env t = fetchWithRetry (fetchCodeChefContests_op env) ''CodeChef'' 0 t"

section \<open>Time formatter\<close>

definition formatContestTime :: "env \<Rightarrow> jsnum js \<Rightarrow> trace \<Rightarrow> string \<times> trace" where
  "formatContestTime env timestamp' t =
     (case toLocaleString env (num_mul (to_number timestamp') 1000) of
        Inr text \<Rightarrow> (text @ '' IST'', t)
      | Inl error_message \<Rightarrow>
          (''Invalid date'', logToFile (''Error formatting contest time: '' @ error_message) t))"

section \<open>Delivery service\<close>

text \<open>\<open>content.content ? content.content : 'No content'\<close>; a string has no property
  \<open>content\<close>.\<close>

fun original_text :: "payload \<Rightarrow> string" where
  "original_text (Plain s) = ''No content''"
| "original_text (Obj c es) = (if c \<noteq> [] then c else ''No content'')"

definition degraded :: "payload \<Rightarrow> payload" where
  "degraded content =
     Obj (warning_sign @ '' Failed to send to main channel. Original message: ''
            @ original_text content) []"

text \<open>The first block of the catch handler of \<open>sendDiscordMessage\<close>: the backup channel.
  \<open>Some m\<close> is the early \<open>return\<close> of the delivered message.\<close>

definition try_backup ::
  "env \<Rightarrow> config \<Rightarrow> string \<Rightarrow> payload \<Rightarrow> trace \<Rightarrow> message option \<times> trace" where
  "try_backup env cfg channelId content t =
     (case BACKUP_CHANNEL_ID cfg of
        None \<Rightarrow> (None, t)
      | Some backup \<Rightarrow>
          if backup \<noteq> [] \<and> channelId \<noteq> backup then
            (let t1 = logToFile (''Attempting to send to backup channel: '' @ backup) t
             in if cache_get env t1 backup then
                  (let outcome = channel_send env t1 backup (degraded content);
                       t2 = t1 @ [ChannelSend backup (degraded content) outcome]
                   in case outcome of
                        None \<Rightarrow> (Some (Message backup (degraded content)), t2)
                      | Some error_message \<Rightarrow>
                          (None, logToFile (''Failed to send to backup channel: ''
                                              @ error_message) t2))
                else (None, t1))
          else (None, t))"

text \<open>The second block of the catch handler: the direct message to the administrator.\<close>

definition notify_admin :: "env \<Rightarrow> config \<Rightarrow> string \<Rightarrow> string \<Rightarrow> trace \<Rightarrow> trace" where
  "notify_admin env cfg channelId error_message t =
     (case DISCORD_ADMIN_ID cfg of
        None \<Rightarrow> t
      | Some admin \<Rightarrow>
          if admin \<noteq> [] then
            (let fetched = users_fetch env t admin;
                 t1 = t @ [UserFetch admin fetched]
             in case fetched of
                  Some admin_error \<Rightarrow> logToFile (''Failed to notify admin: '' @ admin_error) t1
                | None \<Rightarrow>
                    (let text = warning_sign @ '' Failed to send reminder to channel ''
                                  @ channelId @ '': '' @ error_message;
                         sent = user_send env t1 admin text;
                         t2 = t1 @ [UserSend admin text sent]
                     in case sent of
                          Some admin_error \<Rightarrow>
                            logToFile (''Failed to notify admin: '' @ admin_error) t2
                        | None \<Rightarrow> t2))
          else t)"

text \<open>\<open>sendDiscordMessage(channelId, content)\<close>; the result \<open>None\<close> is \<open>null\<close>.\<close>

definition sendDiscordMessage ::
  "env \<Rightarrow> config \<Rightarrow> string \<Rightarrow> payload \<Rightarrow> trace \<Rightarrow> message option \<times> trace" where
  "sendDiscordMessage env cfg channelId content t =
     (let (primary, t1) =
            (if \<not> cache_get env t channelId
             then (Some (''Channel not found: '' @ channelId), t)
             else (channel_send env t channelId content,
                   t @ [ChannelSend channelId content (channel_send env t channelId content)]))
      in case primary of
           None \<Rightarrow> (Some (Message channelId content), t1)
         | Some error_message \<Rightarrow>
             (let t2 = logToFile (''Error sending Discord message: '' @ error_message) t1;
                  (backup_message, t3) = try_backup env cfg channelId content t2
              in case backup_message of
                   Some m \<Rightarrow> (Some m, t3)
                 | None \<Rightarrow> (None, notify_admin env cfg channelId error_message t3)))"

section \<open>Reminder composer\<close>

text \<open>The test of the loop body of \<open>sendContestsReminder\<close>:
  \<open>!contest.title || !contest.startTime\<close>.\<close>

definition incomplete :: "contest \<Rightarrow> bool" where
  "incomplete contest = (\<not> truthy_str (title contest) \<or> \<not> truthy_num (startTime contest))"

text \<open>The field \<open>embed.addFields\<close> is given for a contest, with the formatted start time
  \<open>starts\<close>.\<close>

definition contest_field :: "contest \<Rightarrow> string \<Rightarrow> embed_field" where
  "contest_field contest starts =
     \<lparr> field_name = fire @ '' '' @ show_str (title contest),
       field_value =
         calendar @ '' **Date & Time:** '' @ starts @ newline
         @ hourglass @ '' **Duration:** ''
             @ show_int (round (num_or_zero (duration contest) / 60)) @ '' hours'' @ newline
         @ (if truthy_str (url contest)
            then link_sign @ '' [Join Now]('' @ show_str (url contest) @ '')'' @ newline
            else [])
         @ (if truthy_str (description contest)
            then memo @ '' '' @ take 1000 (show_str (description contest))
            else []) \<rparr>"

text \<open>One round of \<open>contests.forEach\<close>, on the embed built so far and the trace. A
  field the builder refuses raises (\<open>Inl\<close> of the message), after what the round has
  logged.\<close>

definition addContest ::
  "env \<Rightarrow> string \<Rightarrow> embed \<times> trace \<Rightarrow> contest \<Rightarrow> (string + embed) \<times> trace" where
  "addContest env platform st contest =
     (let (embed, t) = st
      in if incomplete contest then
           (Inr embed, logToFile (''Warning: Incomplete contest data for '' @ platform @ '': ''
                                    @ JSON_stringify env contest) t)
         else
           (let (starts, t1) = formatContestTime env (startTime contest) t
            in case addFields env (embed_fields embed) (contest_field contest starts) of
                 Some error_message \<Rightarrow> (Inl error_message, t1)
               | None \<Rightarrow>
                   (Inr (embed\<lparr>embed_fields :=
                                  embed_fields embed @ [contest_field contest starts]\<rparr>), t1)))"

text \<open>\<open>contests.forEach\<close>: an exception of a round leaves the loop.\<close>

fun addContests ::
  "env \<Rightarrow> string \<Rightarrow> embed \<times> trace \<Rightarrow> contest list \<Rightarrow> (string + embed) \<times> trace" where
  "addContests env platform st [] = (Inr (fst st), snd st)"
| "addContests env platform st (contest # contests) =
     (case addContest env platform st contest of
        (Inl error_message, t1) \<Rightarrow> (Inl error_message, t1)
      | (Inr built, t1) \<Rightarrow> addContests env platform (built, t1) contests)"

definition no_contests_text :: "string \<Rightarrow> string" where
  "no_contests_text platform =
     mailbox @ '' No upcoming '' @ platform @ '' contests found. Keep practicing! '' @ rocket"

definition reminder_text :: "string \<Rightarrow> string" where
  "reminder_text platform =
     ''@everyone '' @ boom @ '' Here'' @ apostrophe @ ''s your **'' @ platform
       @ '' Contest Reminder**! Stay sharp and good luck! '' @ clover"

definition new_embed :: "env \<Rightarrow> string \<Rightarrow> trace \<Rightarrow> embed" where
  "new_embed env platform t =
     \<lparr> embed_title = party @ '' Upcoming '' @ platform @ '' Contests '' @ party,
       color = (if platform = ''LeetCode'' then ''#FFA500'' else ''#5B4638''),
       timestamp = date_now env t,
       footer = ''Contest Reminder Bot'',
       embed_fields = [] \<rparr>"

text \<open>The acknowledgment marker after a delivered reminder.\<close>

definition add_reaction :: "env \<Rightarrow> message option \<Rightarrow> trace \<Rightarrow> trace" where
  "add_reaction env msg t =
     (case msg of
        None \<Rightarrow> t
      | Some m \<Rightarrow>
          (let outcome = react env t m check_mark;
               t1 = t @ [React m check_mark outcome]
           in case outcome of
                None \<Rightarrow> t1
              | Some react_error \<Rightarrow>
                  logToFile (''Failed to add reaction to message: '' @ react_error) t1))"

text \<open>
  \<open>sendContestsReminder(platform, contests)\<close>. The result is \<open>undefined\<close> on the empty
  list; otherwise it is \<open>true\<close>, or \<open>false\<close> when the \<open>try\<close> block raised and the
  \<open>catch\<close> logged the error. What can raise in the block is \<open>embed.addFields\<close>: the
  delivery service returns \<open>null\<close> instead of raising, the formatter and the reaction
  have handlers of their own, and the other builder calls are given the fixed title,
  colour and footer.
\<close>

definition sendContestsReminder ::
  "env \<Rightarrow> config \<Rightarrow> string \<Rightarrow> contest list \<Rightarrow> trace \<Rightarrow> bool js \<times> trace" where
  "sendContestsReminder env cfg platform contests t =
     (let t0 = logToFile (''Sending '' @ platform @ '' contest reminder, found ''
                            @ show_nat (length contests) @ '' contests'') t
      in if length contests = 0 then
           (let (msg, t1) = sendDiscordMessage env cfg (CHANNEL_ID cfg)
                              (Plain (no_contests_text platform)) t0
            in (Undefined, t1))
         else
           (case addContests env platform (new_embed env platform t0, t0) contests of
              (Inl error_message, t1) \<Rightarrow>
                (Val False, logToFile (''Error in sendContestsReminder for '' @ platform @ '': ''
                                         @ error_message) t1)
            | (Inr built, t1) \<Rightarrow>
                (let (msg, t2) = sendDiscordMessage env cfg (CHANNEL_ID cfg)
                                   (Obj (reminder_text platform) [built]) t1
                 in (Val True, add_reaction env msg t2))))"

text \<open>\<open>sendCombinedReminder()\<close>; both fetches and both reminders return, so the handler of
  its \<open>try\<close> has no counterpart either.\<close>

definition sendCombinedReminder :: "env \<Rightarrow> config \<Rightarrow> trace \<Rightarrow> bool \<times> trace" where
  "sendCombinedReminder env cfg t =
     (let t0 = logToFile (''Starting combined reminder function at: '' @ iso_now env t) t;
          t1 = t0 @ [SetLastCheck (iso_now env t0)];
          (leetcodeContests, t2) = fetchLeetCodeContests env t1;
          t3 = logToFile (''Fetched '' @ show_nat (length leetcodeContests)
                            @ '' LeetCode contests'') t2;
          (codechefContests, t4) = fetchCodeChefContests env t3;
          t5 = logToFile (''Fetched '' @ show_nat (length codechefContests)
                            @ '' CodeChef contests'') t4;
          (lcResult, t6) = sendContestsReminder env cfg ''LeetCode'' leetcodeContests t5;
          (ccResult, t7) = sendContestsReminder env cfg ''CodeChef'' codechefContests t6
      in (True, logToFile (''Combined reminder sent successfully. LeetCode: ''
                             @ show_result lcResult @ '', CodeChef: '' @ show_result ccResult) t7))"

section \<open>Ten-minute warnings\<close>

text \<open>One round of \<open>allContests.forEach\<close> in \<open>scheduleTenMinuteWarnings\<close>, on the counter
  \<open>warningsScheduled\<close> and the trace; \<open>SetTimer\<close> is the \<open>setTimeout\<close> that arms the
  warning, with its delay in milliseconds.\<close>

definition armWarning :: "env \<Rightarrow> int \<Rightarrow> nat \<times> trace \<Rightarrow> contest \<Rightarrow> nat \<times> trace" where
  "armWarning env now st contest =
     (let (warningsScheduled, t) = st
      in if \<not> truthy_num (startTime contest) then
           (warningsScheduled,
            logToFile (''Warning: Contest missing startTime: '' @ JSON_stringify env contest) t)
         else
           (let timeUntilStart = num_sub (to_number (startTime contest)) (Num (of_int now));
                tenMinBefore = num_sub timeUntilStart (Num 600)
            in if num_gt tenMinBefore 0 \<and> num_lt tenMinBefore 1800 then
                 (warningsScheduled + 1, t @ [SetTimer (num_mul tenMinBefore 1000) contest])
               else (warningsScheduled, t)))"

definition scheduleTenMinuteWarnings :: "env \<Rightarrow> trace \<Rightarrow> bool \<times> trace" where
  "scheduleTenMinuteWarnings env t =
     (let t0 = logToFile (''Scheduling ten-minute warnings at: '' @ iso_now env t) t;
          t1 = t0 @ [SetLastCheck (iso_now env t0)];
          (leetcodeContests, t2) = fetchLeetCodeContests env t1;
          (codechefContests, t3) = fetchCodeChefContests env t2;
          allContests = map (\<lambda>c. c\<lparr>platform_tag := Val ''LeetCode''\<rparr>) leetcodeContests
                        @ map (\<lambda>c. c\<lparr>platform_tag := Val ''CodeChef''\<rparr>) codechefContests;
          now = date_now env t3 div 1000;
          (warningsScheduled, t4) = foldl (armWarning env now) (0, t3) allContests
      in (True, logToFile (''Scheduled '' @ show_nat warningsScheduled
                             @ '' ten-minute warnings'') t4))"

section \<open>Scheduler\<close>

datatype handler =
    sendLeetCodeReminder
  | sendCodeChefReminder
  | sendCombinedReminder_handler
  | scheduleTenMinuteWarnings_handler

record cron_job =
  job_name :: string
  job_expression :: string
  job_handler :: handler
  job_description :: string

definition cronJobs :: "cron_job list" where
  "cronJobs =
     [\<lparr> job_name = ''LeetCode Saturday'', job_expression = ''30 12 * * 6'',
        job_handler = sendLeetCodeReminder,
        job_description = ''LeetCode on Saturdays at 6:00 PM IST (12:30 UTC)'' \<rparr>,
      \<lparr> job_name = ''CodeChef Wednesday'', job_expression = ''30 12 * * 3'',
        job_handler = sendCodeChefReminder,
        job_description = ''CodeChef on Wednesdays at 6:00 PM IST (12:30 UTC)'' \<rparr>,
      \<lparr> job_name = ''Combined Sunday'', job_expression = ''0 10 * * 0'',
        job_handler = sendCombinedReminder_handler,
        job_description = ''Combined reminder on Sundays at 3:30 PM IST (10:00 UTC)'' \<rparr>,
      \<lparr> job_name = ''Ten-minute warnings'', job_expression = ''*/30 * * * *'',
        job_handler = scheduleTenMinuteWarnings_handler,
        job_description = ''Schedule ten-minute reminders every 30 mins'' \<rparr>]"

text \<open>
  \<open>validateCronExpression(expr, name)\<close>. The source calls \<open>cron.validate(expr)\<close> as a
  statement and returns \<open>true\<close> after it; only an exception leads to the handler. The
  library call either throws (\<open>Inl\<close>) or returns a boolean (\<open>Inr\<close>), which the source
  does not read.
\<close>

definition validateCronExpression :: "env \<Rightarrow> string \<Rightarrow> string \<Rightarrow> trace \<Rightarrow> bool \<times> trace" where
  "validateCronExpression env expr name t =
     (case cron_validate env expr of
        Inr answer \<Rightarrow> (True, t)
      | Inl error_message \<Rightarrow>
          (False, logToFile (''Error: '' @ error_message)
                    (logToFile (''Invalid cron expression for '' @ name @ '': '' @ expr) t)))"

text \<open>
  \<open>cronJobs.forEach\<close> at startup. \<open>cron.schedule\<close> is not guarded: if it throws, the
  exception leaves the loop and the remaining jobs are not visited (\<open>Some\<close> of the
  message).
\<close>

fun schedule_jobs :: "env \<Rightarrow> cron_job list \<Rightarrow> trace \<Rightarrow> string option \<times> trace" where
  "schedule_jobs env [] t = (None, t)"
| "schedule_jobs env (job # jobs) t =
     (let (valid, t1) = validateCronExpression env (job_expression job) (job_name job) t
      in if valid then
           (let outcome = cron_schedule env t1 (job_expression job);
                t2 = t1 @ [CronSchedule (job_expression job) (job_name job) outcome]
            in case outcome of
                 Some error_message \<Rightarrow> (Some error_message, t2)
               | None \<Rightarrow>
                   schedule_jobs env jobs
                     (logToFile (''Scheduled: '' @ job_name job @ '' - '' @ job_description job) t2))
         else
           schedule_jobs env jobs (logToFile (''Failed to schedule job: '' @ job_name job) t1))"

section \<open>Observations on traces\<close>

text \<open>What a run added to the trace it started from.\<close>

definition added :: "trace \<Rightarrow> trace \<Rightarrow> trace" where
  "added t t' = drop (length t) t'"

fun is_Invoke :: "event \<Rightarrow> bool" where
  "is_Invoke (Invoke p) = True"
| "is_Invoke _ = False"

fun is_Delay :: "event \<Rightarrow> bool" where
  "is_Delay (Delay d) = True"
| "is_Delay _ = False"

fun is_Log :: "event \<Rightarrow> bool" where
  "is_Log (Log m) = True"
| "is_Log _ = False"

fun is_ChannelSend :: "event \<Rightarrow> bool" where
  "is_ChannelSend (ChannelSend c p outcome) = True"
| "is_ChannelSend _ = False"

text \<open>A rich notification carries an embed; a plain message does not.\<close>

fun is_rich :: "payload \<Rightarrow> bool" where
  "is_rich (Plain s) = False"
| "is_rich (Obj c es) = (es \<noteq> [])"

fun rich_send :: "event \<Rightarrow> bool" where
  "rich_send (ChannelSend c p outcome) = is_rich p"
| "rich_send _ = False"

fun delivered :: "event \<Rightarrow> bool" where
  "delivered (ChannelSend c p None) = True"
| "delivered _ = False"


fun admin_event :: "event \<Rightarrow> bool" where
  "admin_event (UserFetch a outcome) = True"
| "admin_event (UserSend a text outcome) = True"
| "admin_event _ = False"

fun is_SetTimer :: "event \<Rightarrow> bool" where
  "is_SetTimer (SetTimer ms c) = True"
| "is_SetTimer _ = False"

section \<open>Example worlds\<close>

text \<open>A world in which both listing services are unreachable, the builder accepts every
  field and every delivery succeeds, and the variations the examples below run in.\<close>

definition idle_env :: env where
  "idle_env =
     \<lparr> leetcode_api = (\<lambda>t. Inl ''offline''),
       codechef_api = (\<lambda>t. Inl ''offline''),
       date_now = (\<lambda>t. 1000000),
       iso_now = (\<lambda>t. ''1970-01-01T00:16:40.000Z''),
       getTime = (\<lambda>s. NaN),
       toLocaleString = (\<lambda>n. Inr ''some day''),
       JSON_stringify = (\<lambda>c. ''{}''),
       addFields = (\<lambda>fs f. None),
       cache_get = (\<lambda>t c. True),
       channel_send = (\<lambda>t c p. None),
       users_fetch = (\<lambda>t a. None),
       user_send = (\<lambda>t a text. None),
       react = (\<lambda>t m e. None),
       cron_validate = (\<lambda>e. Inr True),
       cron_schedule = (\<lambda>t e. None) \<rparr>"

definition example_contest :: "string \<Rightarrow> rat \<Rightarrow> contest" where
  "example_contest name start =
     \<lparr> title = Val name, startTime = Val (Num start), endTime = Undefined,
       duration = Val (Num 5400), url = Undefined, description = Undefined,
       platform_tag = Undefined \<rparr>"

definition past_entry :: codechef_entry where
  "past_entry = \<lparr> contest_name = Val ''START01'', contest_start_date = Val ''01 Jan 1970 00:00:00'',
      contest_end_date = Val ''01 Jan 1970 02:00:00'', contest_code = Val ''START01'' \<rparr>"

definition clock_env :: env where
  "clock_env = idle_env
     \<lparr> leetcode_api := (\<lambda>t. Inr (Some [example_contest ''Weekly 1'' 100,
                                          example_contest ''Weekly 2'' 5000])),
       codechef_api := (\<lambda>t. Inr (Some [past_entry])),
       getTime := (\<lambda>s. if s = Val ''01 Jan 1970 00:00:00'' then Num 0
                        else if s = Val ''01 Jan 1970 02:00:00'' then Num 7200000 else NaN) \<rparr>"

definition warn_env :: env where
  "warn_env = idle_env
     \<lparr> leetcode_api := (\<lambda>t. Inr (Some [example_contest ''Weekly 1'' 1600,
                                          example_contest ''Weekly 2'' 2000,
                                          example_contest ''Weekly 3'' 3400])),
       codechef_api := (\<lambda>t. Inr (Some [])) \<rparr>"

definition untimed_contest :: contest where
  "untimed_contest =
     \<lparr> title = Val ''Biweekly 7'', startTime = Val (Num 2000), endTime = Undefined,
       duration = Undefined, url = Undefined, description = Undefined,
       platform_tag = Undefined \<rparr>"

definition blank_embed :: embed where
  "blank_embed = \<lparr> embed_title = [], color = [], timestamp = 0, footer = [], embed_fields = [] \<rparr>"


definition plain_cfg :: config where
  "plain_cfg = \<lparr> CHANNEL_ID = ''general'', BACKUP_CHANNEL_ID = None, DISCORD_ADMIN_ID = None \<rparr>"

definition full_cfg :: config where
  "full_cfg = \<lparr> CHANNEL_ID = ''general'', BACKUP_CHANNEL_ID = Some ''backup'',
                 DISCORD_ADMIN_ID = Some ''admin'' \<rparr>"

text \<open>A world in which the primary channel rejects every message, and one in which
  every channel does and the administrator cannot be found.\<close>

definition primary_down_env :: env where
  "primary_down_env = idle_env
     \<lparr> channel_send := (\<lambda>t c p. if c = ''general'' then Some ''Missing Access'' else None) \<rparr>"

definition dead_env :: env where
  "dead_env = idle_env
     \<lparr> channel_send := (\<lambda>t c p. Some ''Missing Access''),
       users_fetch := (\<lambda>t a. Some ''Unknown User'') \<rparr>"

definition quiet_env :: env where
  "quiet_env = idle_env
     \<lparr> leetcode_api := (\<lambda>t. Inr (Some [])), codechef_api := (\<lambda>t. Inr (Some [])) \<rparr>"

definition broken_job :: cron_job where
  "broken_job = \<lparr> job_name = ''Broken'', job_expression = ''61 25 * * *'',
                   job_handler = sendCombinedReminder_handler,
                   job_description = ''never'' \<rparr>"

text \<open>The validator of the library answers \<open>false\<close> on the expression of the broken job;
  in the second world \<open>cron.schedule\<close> also rejects it.\<close>

definition answering_env :: env where
  "answering_env = idle_env \<lparr> cron_validate := (\<lambda>e. Inr (e \<noteq> ''61 25 * * *'')) \<rparr>"

definition rejecting_env :: env where
  "rejecting_env = answering_env
     \<lparr> cron_schedule := (\<lambda>t e. if e = ''61 25 * * *''
                                then Some ''61 25 * * * is a invalid expression'' else None) \<rparr>"




text \<open>A world in which every channel rejects the message and the administrator can be
  reached.\<close>

definition channels_down_env :: env where
  "channels_down_env = idle_env \<lparr> channel_send := (\<lambda>t c p. Some ''Missing Access'') \<rparr>"
section \<open>Properties\<close>

subsection \<open>Rendering of small numbers\<close>

lemma show_nat_small [simp]:
  "show_nat 0 = ''0''" "show_nat 1 = ''1''" "show_nat 2 = ''2''" "show_nat 3 = ''3''"
  "show_nat 4 = ''4''" "show_nat 60 = ''60''" "show_nat (Suc 0) = ''1''"
  by (simp_all add: show_nat.simps)

lemma show_nat_Suc [simp]:
  "show_nat (Suc (Suc 0)) = ''2''" "show_nat (Suc (Suc (Suc 0))) = ''3''"
  by (simp_all add: show_nat.simps)

lemma replicate_MAX_RETRIES:
  "replicate MAX_RETRIES x = [x, x, x]" "replicate (MAX_RETRIES + 1) x = [x, x, x, x]"
  by (simp_all add: MAX_RETRIES_def numeral_eq_Suc)

subsection \<open>Retry wrapper\<close>

lemma fetch_retry_step:
  assumes "fetchFunc (t @ [Invoke platform]) = Inl m" and "retries < MAX_RETRIES"
  shows "fetchWithRetry fetchFunc platform retries t =
         fetchWithRetry fetchFunc platform (retries + 1)
           (t @ [Invoke platform,
                 Log (''Error fetching '' @ platform @ '' contests (attempt ''
                      @ show_nat (retries + 1) @ ''/3): '' @ m),
                 Log (''Retrying '' @ platform @ '' fetch in 60 seconds...''),
                 Delay RETRY_DELAY])"
  using assms
  by (subst fetchWithRetry.simps) (simp add: logToFile_def MAX_RETRIES_def RETRY_DELAY_def)

lemma fetch_retry_last:
  assumes "fetchFunc (t @ [Invoke platform]) = Inl m" and "\<not> retries < MAX_RETRIES"
  shows "fetchWithRetry fetchFunc platform retries t =
         ([], t @ [Invoke platform,
                 Log (''Error fetching '' @ platform @ '' contests (attempt ''
                      @ show_nat (retries + 1) @ ''/3): '' @ m),
                 Log (''All '' @ platform @ '' fetch attempts failed. Giving up.'')])"
  using assms
  by (subst fetchWithRetry.simps) (simp add: logToFile_def MAX_RETRIES_def RETRY_DELAY_def)

lemma fetch_retry_ok:
  assumes "fetchFunc (t @ [Invoke platform]) = Inr r"
  shows "fetchWithRetry fetchFunc platform retries t = (r, t @ [Invoke platform])"
  using assms
  by (subst fetchWithRetry.simps) simp

text \<open>
  Claim C1. An operation that fails on every attempt is invoked exactly
  \<open>MAX_RETRIES + 1 = 4\<close> times by \<open>fetchWithRetry\<close>; between two consecutive attempts
  the wrapper waits the same \<open>RETRY_DELAY\<close>; every failed attempt is logged with its
  number; the result is the empty list, and no error reaches the caller.
\<close>

theorem fetchWithRetry_always_failing:
  assumes fails: "\<And>s. isl (fetchFunc s)"
  shows "fst (fetchWithRetry fetchFunc platform 0 t) = [] \<and>
    (\<exists>m1 m2 m3 m4.
      snd (fetchWithRetry fetchFunc platform 0 t) =
        t @ [Invoke platform,
             Log (''Error fetching '' @ platform @ '' contests (attempt 1/3): '' @ m1),
             Log (''Retrying '' @ platform @ '' fetch in 60 seconds...''),
             Delay RETRY_DELAY,
             Invoke platform,
             Log (''Error fetching '' @ platform @ '' contests (attempt 2/3): '' @ m2),
             Log (''Retrying '' @ platform @ '' fetch in 60 seconds...''),
             Delay RETRY_DELAY,
             Invoke platform,
             Log (''Error fetching '' @ platform @ '' contests (attempt 3/3): '' @ m3),
             Log (''Retrying '' @ platform @ '' fetch in 60 seconds...''),
             Delay RETRY_DELAY,
             Invoke platform,
             Log (''Error fetching '' @ platform @ '' contests (attempt 4/3): '' @ m4),
             Log (''All '' @ platform @ '' fetch attempts failed. Giving up.'')]) \<and>
    filter is_Invoke (snd (fetchWithRetry fetchFunc platform 0 t)) =
      filter is_Invoke t @ replicate (MAX_RETRIES + 1) (Invoke platform) \<and>
    filter is_Delay (snd (fetchWithRetry fetchFunc platform 0 t)) =
      filter is_Delay t @ replicate MAX_RETRIES (Delay RETRY_DELAY)"
proof -
  let ?err = "\<lambda>n m. Log (''Error fetching '' @ platform @ '' contests (attempt ''
                      @ show_nat (n + 1) @ ''/3): '' @ m)"
  let ?wait = "\<lambda>n m. [Invoke platform, ?err n m,
                 Log (''Retrying '' @ platform @ '' fetch in 60 seconds...''),
                 Delay RETRY_DELAY]"
  obtain m1 where m1: "fetchFunc (t @ [Invoke platform]) = Inl m1"
    using fails [of "t @ [Invoke platform]"] by (auto simp: isl_def)
  define t1 where "t1 = t @ ?wait 0 m1"
  obtain m2 where m2: "fetchFunc (t1 @ [Invoke platform]) = Inl m2"
    using fails [of "t1 @ [Invoke platform]"] by (auto simp: isl_def)
  define t2 where "t2 = t1 @ ?wait (0 + 1) m2"
  obtain m3 where m3: "fetchFunc (t2 @ [Invoke platform]) = Inl m3"
    using fails [of "t2 @ [Invoke platform]"] by (auto simp: isl_def)
  define t3 where "t3 = t2 @ ?wait (0 + 1 + 1) m3"
  obtain m4 where m4: "fetchFunc (t3 @ [Invoke platform]) = Inl m4"
    using fails [of "t3 @ [Invoke platform]"] by (auto simp: isl_def)
  have s1: "fetchWithRetry fetchFunc platform 0 t = fetchWithRetry fetchFunc platform (0 + 1) t1"
    unfolding t1_def by (rule fetch_retry_step) (simp_all add: m1 MAX_RETRIES_def)
  have s2: "fetchWithRetry fetchFunc platform (0 + 1) t1 =
            fetchWithRetry fetchFunc platform (0 + 1 + 1) t2"
    unfolding t2_def by (rule fetch_retry_step) (simp_all add: m2 MAX_RETRIES_def)
  have s3: "fetchWithRetry fetchFunc platform (0 + 1 + 1) t2 =
            fetchWithRetry fetchFunc platform (0 + 1 + 1 + 1) t3"
    unfolding t3_def by (rule fetch_retry_step) (simp_all add: m3 MAX_RETRIES_def)
  have s4: "fetchWithRetry fetchFunc platform (0 + 1 + 1 + 1) t3 =
         ([], t3 @ [Invoke platform, ?err (0 + 1 + 1 + 1) m4,
                 Log (''All '' @ platform @ '' fetch attempts failed. Giving up.'')])"
    by (rule fetch_retry_last) (simp_all add: m4 MAX_RETRIES_def)
  have "fetchWithRetry fetchFunc platform 0 t =
         ([], t3 @ [Invoke platform, ?err (0 + 1 + 1 + 1) m4,
                 Log (''All '' @ platform @ '' fetch attempts failed. Giving up.'')])"
    using s1 s2 s3 s4 by (rule trans [OF trans [OF trans]])
  then have run: "fetchWithRetry fetchFunc platform 0 t =
      ([], t @ [Invoke platform,
               Log (''Error fetching '' @ platform @ '' contests (attempt 1/3): '' @ m1),
               Log (''Retrying '' @ platform @ '' fetch in 60 seconds...''),
               Delay RETRY_DELAY,
               Invoke platform,
               Log (''Error fetching '' @ platform @ '' contests (attempt 2/3): '' @ m2),
               Log (''Retrying '' @ platform @ '' fetch in 60 seconds...''),
               Delay RETRY_DELAY,
               Invoke platform,
               Log (''Error fetching '' @ platform @ '' contests (attempt 3/3): '' @ m3),
               Log (''Retrying '' @ platform @ '' fetch in 60 seconds...''),
               Delay RETRY_DELAY,
               Invoke platform,
               Log (''Error fetching '' @ platform @ '' contests (attempt 4/3): '' @ m4),
               Log (''All '' @ platform @ '' fetch attempts failed. Giving up.'')])"
    by (simp add: t1_def t2_def t3_def numeral_eq_Suc [symmetric] del: One_nat_def)
  have r1: "fst (fetchWithRetry fetchFunc platform 0 t) = []"
    by (simp add: run)
  have r2: "snd (fetchWithRetry fetchFunc platform 0 t) =
        t @ [Invoke platform,
             Log (''Error fetching '' @ platform @ '' contests (attempt 1/3): '' @ m1),
             Log (''Retrying '' @ platform @ '' fetch in 60 seconds...''),
             Delay RETRY_DELAY,
             Invoke platform,
             Log (''Error fetching '' @ platform @ '' contests (attempt 2/3): '' @ m2),
             Log (''Retrying '' @ platform @ '' fetch in 60 seconds...''),
             Delay RETRY_DELAY,
             Invoke platform,
             Log (''Error fetching '' @ platform @ '' contests (attempt 3/3): '' @ m3),
             Log (''Retrying '' @ platform @ '' fetch in 60 seconds...''),
             Delay RETRY_DELAY,
             Invoke platform,
             Log (''Error fetching '' @ platform @ '' contests (attempt 4/3): '' @ m4),
             Log (''All '' @ platform @ '' fetch attempts failed. Giving up.'')]"
    by (simp add: run)
  have r3: "filter is_Invoke (snd (fetchWithRetry fetchFunc platform 0 t)) =
           filter is_Invoke t @ replicate (MAX_RETRIES + 1) (Invoke platform)"
    by (simp add: run MAX_RETRIES_def numeral_eq_Suc)
  have r4: "filter is_Delay (snd (fetchWithRetry fetchFunc platform 0 t)) =
           filter is_Delay t @ replicate MAX_RETRIES (Delay RETRY_DELAY)"
    by (simp add: run MAX_RETRIES_def numeral_eq_Suc)
  show ?thesis
    by (intro conjI exI) (rule r1, rule r2, rule r3, rule r4)
qed

theorem fetchWithRetry_always_failing_witness:
  "(\<forall>s. isl ((\<lambda>s. Inl ''timeout'' :: string + nat list) s)) \<and>
   fst (fetchWithRetry (\<lambda>s. Inl ''timeout'' :: string + nat list) ''LeetCode'' 0 []) = [] \<and>
   filter is_Invoke (snd (fetchWithRetry (\<lambda>s. Inl ''timeout'' :: string + nat list) ''LeetCode'' 0 [])) =
     [Invoke ''LeetCode'', Invoke ''LeetCode'', Invoke ''LeetCode'', Invoke ''LeetCode''] \<and>
   filter is_Delay (snd (fetchWithRetry (\<lambda>s. Inl ''timeout'' :: string + nat list) ''LeetCode'' 0 [])) =
     [Delay 60000, Delay 60000, Delay 60000]"
  using fetchWithRetry_always_failing [of "\<lambda>s. Inl ''timeout'' :: string + nat list" "''LeetCode''" "[]"]
  by (simp add: replicate_MAX_RETRIES RETRY_DELAY_def)

subsection \<open>Adapters\<close>

lemma fetchWithRetry_result:
  "fst (fetchWithRetry fetchFunc platform retries t) = [] \<or>
   (\<exists>s. fetchFunc s = Inr (fst (fetchWithRetry fetchFunc platform retries t)))"
proof (induction fetchFunc platform retries t rule: fetchWithRetry.induct)
  case (1 fetchFunc platform retries t)
  show ?case
  proof (cases "fetchFunc (t @ [Invoke platform])")
    case (Inr r)
    then show ?thesis
      by (subst (1 2) fetchWithRetry.simps) auto
  next
    case (Inl m)
    show ?thesis
    proof (cases "retries < MAX_RETRIES")
      case True
      with Inl 1 show ?thesis
        by (subst (1 2) fetchWithRetry.simps) (simp add: Let_def)
    next
      case False
      with Inl show ?thesis
        by (subst fetchWithRetry.simps) (simp add: Let_def)
    qed
  qed
qed

lemma fetchLeetCodeContests_op_Inr:
  assumes "fetchLeetCodeContests_op env s = Inr r"
  shows "\<exists>listing. leetcode_api env s = Inr (Some listing) \<and>
           r = filter (\<lambda>c. js_gt (startTime c) (of_int (date_now env s div 1000))) listing"
  using assms
  by (auto simp: fetchLeetCodeContests_op_def Let_def split: sum.splits option.splits)

lemma fetchCodeChefContests_op_Inr:
  assumes "fetchCodeChefContests_op env s = Inr r"
  shows "\<exists>future. codechef_api env s = Inr (Some future) \<and> r = map (codechef_contest env) future"
  using assms
  by (auto simp: fetchCodeChefContests_op_def split: sum.splits option.splits)

text \<open>
  Claim C3. Whenever the LeetCode API returns a listing, the adapter's output is exactly
  the entries whose \<open>startTime\<close> is strictly greater than the current time in seconds,
  so every past or already started contest is dropped; the CodeChef adapter maps every
  entry of \<open>future_contests\<close> and never looks at the clock. This holds for the first
  attempt and for whichever attempt of the retry wrapper succeeds.
\<close>

theorem adapters_past_contests:
  "(leetcode_api env (t @ [Invoke ''LeetCode'']) = Inr (Some contests) \<longrightarrow>
      fetchLeetCodeContests env t =
        (filter (\<lambda>c. js_gt (startTime c)
                        (of_int (date_now env (t @ [Invoke ''LeetCode'']) div 1000))) contests,
         t @ [Invoke ''LeetCode''])) \<and>
   (codechef_api env (t @ [Invoke ''CodeChef'']) = Inr (Some entries) \<longrightarrow>
      fetchCodeChefContests env t =
        (map (codechef_contest env) entries, t @ [Invoke ''CodeChef''])) \<and>
   (fst (fetchLeetCodeContests env t) = [] \<or>
      (\<exists>s listing. leetcode_api env s = Inr (Some listing) \<and>
         fst (fetchLeetCodeContests env t) =
           filter (\<lambda>c. js_gt (startTime c) (of_int (date_now env s div 1000))) listing)) \<and>
   (fst (fetchCodeChefContests env t) = [] \<or>
      (\<exists>s future. codechef_api env s = Inr (Some future) \<and>
         fst (fetchCodeChefContests env t) = map (codechef_contest env) future))"
proof (intro conjI impI)
  assume "leetcode_api env (t @ [Invoke ''LeetCode'']) = Inr (Some contests)"
  then show "fetchLeetCodeContests env t =
        (filter (\<lambda>c. js_gt (startTime c)
                        (of_int (date_now env (t @ [Invoke ''LeetCode'']) div 1000))) contests,
         t @ [Invoke ''LeetCode''])"
    unfolding fetchLeetCodeContests_def
    by (intro fetch_retry_ok) (simp add: fetchLeetCodeContests_op_def)
next
  assume "codechef_api env (t @ [Invoke ''CodeChef'']) = Inr (Some entries)"
  then show "fetchCodeChefContests env t =
        (map (codechef_contest env) entries, t @ [Invoke ''CodeChef''])"
    unfolding fetchCodeChefContests_def
    by (intro fetch_retry_ok) (simp add: fetchCodeChefContests_op_def)
next
  show "fst (fetchLeetCodeContests env t) = [] \<or>
      (\<exists>s listing. leetcode_api env s = Inr (Some listing) \<and>
         fst (fetchLeetCodeContests env t) =
           filter (\<lambda>c. js_gt (startTime c) (of_int (date_now env s div 1000))) listing)"
    using fetchWithRetry_result [of "fetchLeetCodeContests_op env" "''LeetCode''" 0 t]
    unfolding fetchLeetCodeContests_def
    using fetchLeetCodeContests_op_Inr by blast
next
  show "fst (fetchCodeChefContests env t) = [] \<or>
      (\<exists>s future. codechef_api env s = Inr (Some future) \<and>
         fst (fetchCodeChefContests env t) = map (codechef_contest env) future)"
    using fetchWithRetry_result [of "fetchCodeChefContests_op env" "''CodeChef''" 0 t]
    unfolding fetchCodeChefContests_def
    using fetchCodeChefContests_op_Inr by blast
qed

theorem adapters_past_contests_witness:
  "leetcode_api clock_env ([] @ [Invoke ''LeetCode'']) =
     Inr (Some [example_contest ''Weekly 1'' 100, example_contest ''Weekly 2'' 5000]) \<and>
   codechef_api clock_env ([] @ [Invoke ''CodeChef'']) = Inr (Some [past_entry]) \<and>
   fetchLeetCodeContests clock_env [] = ([example_contest ''Weekly 2'' 5000], [Invoke ''LeetCode'']) \<and>
   fst (fetchCodeChefContests clock_env []) = [codechef_contest clock_env past_entry] \<and>
   startTime (codechef_contest clock_env past_entry) = Val (Num 0)"
  using adapters_past_contests [of clock_env "[]"
      "[example_contest ''Weekly 1'' 100, example_contest ''Weekly 2'' 5000]" "[past_entry]"]
  by (simp add: clock_env_def idle_env_def example_contest_def codechef_contest_def past_entry_def)

subsection \<open>Duration of a CodeChef contest\<close>

lemma codechef_duration:
  "duration (codechef_contest env c) =
     Val (num_div (num_sub (getTime env (contest_end_date c)) (getTime env (contest_start_date c))) 60)"
  by (simp add: codechef_contest_def)

text \<open>
  Claim C4 says that the CodeChef adapter stores the duration in whole minutes, the
  difference of the two timestamps in milliseconds divided by 60,000. The adapter divides
  the difference by 60: for a two-hour contest it stores 120000, not 120.
\<close>

theorem codechef_duration_two_hours:
  "duration (codechef_contest clock_env past_entry) = Val (Num 120000) \<and>
   num_div (num_sub (getTime clock_env (contest_end_date past_entry))
                    (getTime clock_env (contest_start_date past_entry))) 60000 = Num 120"
  by (simp add: clock_env_def idle_env_def codechef_contest_def past_entry_def)


subsection \<open>Ten-minute warnings\<close>

lemma fetchWithRetry_added:
  "\<exists>evs. snd (fetchWithRetry fetchFunc platform retries t) = t @ evs \<and>
         (\<forall>e \<in> set evs. is_Invoke e \<or> is_Delay e \<or> is_Log e)"
proof (induction fetchFunc platform retries t rule: fetchWithRetry.induct)
  case (1 fetchFunc platform retries t)
  show ?case
  proof (cases "fetchFunc (t @ [Invoke platform])")
    case (Inr r)
    then show ?thesis
      by (subst fetchWithRetry.simps) auto
  next
    case (Inl m)
    show ?thesis
    proof (cases "retries < MAX_RETRIES")
      case True
      from 1 [OF refl Inl refl True refl refl]
      obtain evs where evs: "snd (fetchWithRetry fetchFunc platform (retries + 1)
          (logToFile (''Retrying '' @ platform @ '' fetch in ''
                            @ show_nat (RETRY_DELAY div 1000) @ '' seconds...'')
             (logToFile (''Error fetching '' @ platform @ '' contests (attempt ''
                      @ show_nat (retries + 1) @ ''/'' @ show_nat MAX_RETRIES @ ''): ''
                      @ m) (t @ [Invoke platform])) @ [Delay RETRY_DELAY])) =
          (logToFile (''Retrying '' @ platform @ '' fetch in ''
                            @ show_nat (RETRY_DELAY div 1000) @ '' seconds...'')
             (logToFile (''Error fetching '' @ platform @ '' contests (attempt ''
                      @ show_nat (retries + 1) @ ''/'' @ show_nat MAX_RETRIES @ ''): ''
                      @ m) (t @ [Invoke platform])) @ [Delay RETRY_DELAY]) @ evs"
        and ok: "\<forall>e \<in> set evs. is_Invoke e \<or> is_Delay e \<or> is_Log e"
        by blast
      show ?thesis
        apply (subst fetchWithRetry.simps)
        using Inl True evs ok
        by (simp add: Let_def logToFile_def)
    next
      case False
      with Inl show ?thesis
        by (subst fetchWithRetry.simps) (simp add: Let_def logToFile_def)
    qed
  qed
qed

lemma fetch_retry_ok_eval:
  assumes "\<not> isl (fetchFunc (t @ [Invoke platform]))"
  shows "fetchWithRetry fetchFunc platform retries t =
           (projr (fetchFunc (t @ [Invoke platform])), t @ [Invoke platform])"
  using assms
  by (subst fetchWithRetry.simps) (auto simp: Let_def split: sum.splits)

lemma no_timer_in_fetch:
  assumes "\<forall>e \<in> set evs. is_Invoke e \<or> is_Delay e \<or> is_Log e"
  shows "filter is_SetTimer evs = []"
proof -
  have "\<not> is_SetTimer e" if "is_Invoke e \<or> is_Delay e \<or> is_Log e" for e
    using that by (cases e) auto
  with assms show ?thesis by (auto simp: filter_empty_conv)
qed

lemma armWarning_valid:
  assumes "startTime c = Val (Num s)" and "s \<noteq> 0"
  shows "armWarning env now (n, t) c =
         (if 600 < s - of_int now \<and> s - of_int now < 2400
          then (n + 1, t @ [SetTimer (Num ((s - of_int now - 600) * 1000)) c])
          else (n, t))"
  using assms by (auto simp: armWarning_def Let_def)

lemma armWarning_invalid:
  assumes "\<not> truthy_num (startTime c)"
  shows "armWarning env now (n, t) c =
         (n, t @ [Log (''Warning: Contest missing startTime: '' @ JSON_stringify env c)])"
  using assms by (simp add: armWarning_def logToFile_def)

lemma truthy_num_cases:
  obtains (valid) s where "x = Val (Num s)" "s \<noteq> 0" | (invalid) "\<not> truthy_num x"
  by (cases x rule: truthy_num.cases) auto

text \<open>The timers one contest contributes, whatever the counter and the trace.\<close>

lemma armWarning_timers:
  "\<exists>k evs. armWarning env now (n, t) c = (n + k, t @ evs) \<and>
     filter is_SetTimer evs =
       (case startTime c of
          Val (Num s) \<Rightarrow>
            if s \<noteq> 0 \<and> 600 < s - of_int now \<and> s - of_int now < 2400
            then [SetTimer (Num ((s - of_int now - 600) * 1000)) c] else []
        | _ \<Rightarrow> [])"
proof (cases "startTime c" rule: truthy_num_cases)
  case (valid s)
  then show ?thesis
    by (simp add: armWarning_valid)
next
  case invalid
  then have "(case startTime c of
          Val (Num s) \<Rightarrow>
            if s \<noteq> 0 \<and> 600 < s - of_int now \<and> s - of_int now < 2400
            then [SetTimer (Num ((s - of_int now - 600) * 1000)) c] else []
        | _ \<Rightarrow> []) = []"
    by (auto split: js.splits jsnum.splits)
  with invalid show ?thesis
    by (simp add: armWarning_invalid)
qed

lemma armWarning_foldl:
  "\<exists>k evs. foldl (armWarning env now) (n, t) cs = (n + k, t @ evs) \<and>
     filter is_SetTimer evs =
       concat (map (\<lambda>c. case startTime c of
          Val (Num s) \<Rightarrow>
            if s \<noteq> 0 \<and> 600 < s - of_int now \<and> s - of_int now < 2400
            then [SetTimer (Num ((s - of_int now - 600) * 1000)) c] else []
        | _ \<Rightarrow> []) cs)"
proof (induction cs arbitrary: n t)
  case Nil
  show ?case by simp
next
  case (Cons c cs)
  obtain k evs where step: "armWarning env now (n, t) c = (n + k, t @ evs)"
    and tm: "filter is_SetTimer evs =
       (case startTime c of
          Val (Num s) \<Rightarrow>
            if s \<noteq> 0 \<and> 600 < s - of_int now \<and> s - of_int now < 2400
            then [SetTimer (Num ((s - of_int now - 600) * 1000)) c] else []
        | _ \<Rightarrow> [])"
    using armWarning_timers by blast
  obtain k' evs' where rest: "foldl (armWarning env now) (n + k, t @ evs) cs = (n + k + k', (t @ evs) @ evs')"
    and tm': "filter is_SetTimer evs' =
       concat (map (\<lambda>c. case startTime c of
          Val (Num s) \<Rightarrow>
            if s \<noteq> 0 \<and> 600 < s - of_int now \<and> s - of_int now < 2400
            then [SetTimer (Num ((s - of_int now - 600) * 1000)) c] else []
        | _ \<Rightarrow> []) cs)"
    using Cons.IH by blast
  have "foldl (armWarning env now) (n, t) (c # cs) = (n + (k + k'), t @ (evs @ evs'))"
    by (simp add: step rest add.assoc)
  moreover have "filter is_SetTimer (evs @ evs') =
       concat (map (\<lambda>c. case startTime c of
          Val (Num s) \<Rightarrow>
            if s \<noteq> 0 \<and> 600 < s - of_int now \<and> s - of_int now < 2400
            then [SetTimer (Num ((s - of_int now - 600) * 1000)) c] else []
        | _ \<Rightarrow> []) (c # cs))"
    by (simp add: tm tm')
  ultimately show ?case by blast
qed

text \<open>
  Claim C9. For a contest with a valid start time, one round of the scan arms a deferred
  warning if and only if the start is strictly more than 600 and strictly less than 2400
  seconds after the current time, with the delay \<open>(startTime - now - 600) * 1000\<close>
  milliseconds; a start exactly 600 seconds ahead, or 2400 or more, arms nothing. The
  timers a whole scan arms are those of the contests the two adapters returned that lie
  in this window, in order.
\<close>

theorem scheduleTenMinuteWarnings_window:
  "(startTime c = Val (Num s) \<and> s \<noteq> 0 \<longrightarrow>
      armWarning env now (n, t) c =
        (if 600 < s - of_int now \<and> s - of_int now < 2400
         then (n + 1, t @ [SetTimer (Num ((s - of_int now - 600) * 1000)) c])
         else (n, t))) \<and>
   (startTime c = Val (Num s) \<and> s \<noteq> 0 \<and> (s - of_int now = 600 \<or> 2400 \<le> s - of_int now) \<longrightarrow>
      armWarning env now (n, t) c = (n, t)) \<and>
   (fetchLeetCodeContests env
        (t @ [Log (''Scheduling ten-minute warnings at: '' @ iso_now env t),
              SetLastCheck (iso_now env (t @ [Log (''Scheduling ten-minute warnings at: ''
                                                     @ iso_now env t)]))]) = (lc, t2) \<and>
    fetchCodeChefContests env t2 = (cc, t3) \<longrightarrow>
      filter is_SetTimer (added t (snd (scheduleTenMinuteWarnings env t))) =
        concat (map (\<lambda>c. case startTime c of
          Val (Num s) \<Rightarrow>
            if s \<noteq> 0 \<and> 600 < s - of_int (date_now env t3 div 1000) \<and> s - of_int (date_now env t3 div 1000) < 2400
            then [SetTimer (Num ((s - of_int (date_now env t3 div 1000) - 600) * 1000)) c] else []
        | _ \<Rightarrow> [])
                  (map (\<lambda>c. c\<lparr>platform_tag := Val ''LeetCode''\<rparr>) lc
                   @ map (\<lambda>c. c\<lparr>platform_tag := Val ''CodeChef''\<rparr>) cc)))"
proof (intro conjI impI)
  assume "startTime c = Val (Num s) \<and> s \<noteq> 0"
  then show "armWarning env now (n, t) c =
        (if 600 < s - of_int now \<and> s - of_int now < 2400
         then (n + 1, t @ [SetTimer (Num ((s - of_int now - 600) * 1000)) c])
         else (n, t))"
    by (simp add: armWarning_valid)
next
  assume "startTime c = Val (Num s) \<and> s \<noteq> 0 \<and> (s - of_int now = 600 \<or> 2400 \<le> s - of_int now)"
  then show "armWarning env now (n, t) c = (n, t)"
    by (auto simp: armWarning_valid)
next
  let ?t1 = "t @ [Log (''Scheduling ten-minute warnings at: '' @ iso_now env t),
              SetLastCheck (iso_now env (t @ [Log (''Scheduling ten-minute warnings at: ''
                                                     @ iso_now env t)]))]"
  let ?all = "map (\<lambda>c. c\<lparr>platform_tag := Val ''LeetCode''\<rparr>) lc
                   @ map (\<lambda>c. c\<lparr>platform_tag := Val ''CodeChef''\<rparr>) cc"
  let ?now = "date_now env t3 div 1000"
  assume fetched: "fetchLeetCodeContests env ?t1 = (lc, t2) \<and> fetchCodeChefContests env t2 = (cc, t3)"
  obtain evs1 where evs1: "t2 = ?t1 @ evs1" "filter is_SetTimer evs1 = []"
    using fetchWithRetry_added [of "fetchLeetCodeContests_op env" "''LeetCode''" 0 ?t1]
      fetched no_timer_in_fetch
    unfolding fetchLeetCodeContests_def by (metis snd_conv)
  obtain evs2 where evs2: "t3 = t2 @ evs2" "filter is_SetTimer evs2 = []"
    using fetchWithRetry_added [of "fetchCodeChefContests_op env" "''CodeChef''" 0 t2]
      fetched no_timer_in_fetch
    unfolding fetchCodeChefContests_def by (metis snd_conv)
  obtain k evs where loop: "foldl (armWarning env ?now) (0, t3) ?all = (0 + k, t3 @ evs)"
    and timers: "filter is_SetTimer evs = concat (map (\<lambda>c. case startTime c of
          Val (Num s) \<Rightarrow>
            if s \<noteq> 0 \<and> 600 < s - of_int ?now \<and> s - of_int ?now < 2400
            then [SetTimer (Num ((s - of_int ?now - 600) * 1000)) c] else []
        | _ \<Rightarrow> []) ?all)"
    using armWarning_foldl [of env ?now 0 t3 ?all] by blast
  have run: "snd (scheduleTenMinuteWarnings env t) =
        t3 @ evs @ [Log (''Scheduled '' @ show_nat k @ '' ten-minute warnings'')]"
    using fetched loop
    by (simp add: scheduleTenMinuteWarnings_def Let_def logToFile_def)
  have "added t (snd (scheduleTenMinuteWarnings env t)) =
        [Log (''Scheduling ten-minute warnings at: '' @ iso_now env t),
              SetLastCheck (iso_now env (t @ [Log (''Scheduling ten-minute warnings at: ''
                                                     @ iso_now env t)]))]
        @ evs1 @ evs2 @ evs @ [Log (''Scheduled '' @ show_nat k @ '' ten-minute warnings'')]"
    unfolding run by (simp add: added_def evs1 evs2)
  then show "filter is_SetTimer (added t (snd (scheduleTenMinuteWarnings env t))) =
        concat (map (\<lambda>c. case startTime c of
          Val (Num s) \<Rightarrow>
            if s \<noteq> 0 \<and> 600 < s - of_int ?now \<and> s - of_int ?now < 2400
            then [SetTimer (Num ((s - of_int ?now - 600) * 1000)) c] else []
        | _ \<Rightarrow> []) ?all)"
    by (simp add: evs1 evs2 timers)
qed

theorem scheduleTenMinuteWarnings_window_witness:
  "armWarning warn_env 1000 (0, []) (example_contest ''Weekly 2'' 2000) =
     (1, [SetTimer (Num 400000) (example_contest ''Weekly 2'' 2000)]) \<and>
   armWarning warn_env 1000 (0, []) (example_contest ''Weekly 1'' 1600) = (0, []) \<and>
   armWarning warn_env 1000 (0, []) (example_contest ''Weekly 3'' 3400) = (0, []) \<and>
   filter is_SetTimer (added [] (snd (scheduleTenMinuteWarnings warn_env []))) =
     [SetTimer (Num 400000) ((example_contest ''Weekly 2'' 2000)\<lparr>platform_tag := Val ''LeetCode''\<rparr>)]"
proof -
  have a: "startTime (example_contest ''Weekly 2'' 2000) = Val (Num 2000) \<and> (2000::rat) \<noteq> 0"
    by (simp add: example_contest_def)
  have b: "startTime (example_contest ''Weekly 1'' 1600) = Val (Num 1600) \<and> (1600::rat) \<noteq> 0 \<and>
           ((1600::rat) - of_int 1000 = 600 \<or> 2400 \<le> (1600::rat) - of_int 1000)"
    by (simp add: example_contest_def)
  have c: "startTime (example_contest ''Weekly 3'' 3400) = Val (Num 3400) \<and> (3400::rat) \<noteq> 0 \<and>
           ((3400::rat) - of_int 1000 = 600 \<or> 2400 \<le> (3400::rat) - of_int 1000)"
    by (simp add: example_contest_def)
  have lc: "fetchLeetCodeContests warn_env
        ([] @ [Log (''Scheduling ten-minute warnings at: '' @ iso_now warn_env []),
              SetLastCheck (iso_now warn_env ([] @ [Log (''Scheduling ten-minute warnings at: ''
                                                     @ iso_now warn_env [])]))]) =
        ([example_contest ''Weekly 1'' 1600, example_contest ''Weekly 2'' 2000,
          example_contest ''Weekly 3'' 3400],
         [Log (''Scheduling ten-minute warnings at: '' @ iso_now warn_env []),
              SetLastCheck (iso_now warn_env ([] @ [Log (''Scheduling ten-minute warnings at: ''
                                                     @ iso_now warn_env [])])),
          Invoke ''LeetCode''])"
    by (simp add: fetchLeetCodeContests_def fetch_retry_ok_eval fetchLeetCodeContests_op_def
          warn_env_def idle_env_def example_contest_def)
  have cc: "fetchCodeChefContests warn_env
         [Log (''Scheduling ten-minute warnings at: '' @ iso_now warn_env []),
              SetLastCheck (iso_now warn_env ([] @ [Log (''Scheduling ten-minute warnings at: ''
                                                     @ iso_now warn_env [])])),
          Invoke ''LeetCode''] =
        ([], [Log (''Scheduling ten-minute warnings at: '' @ iso_now warn_env []),
              SetLastCheck (iso_now warn_env ([] @ [Log (''Scheduling ten-minute warnings at: ''
                                                     @ iso_now warn_env [])])),
          Invoke ''LeetCode'', Invoke ''CodeChef''])"
    by (simp add: fetchCodeChefContests_def fetch_retry_ok_eval fetchCodeChefContests_op_def
          warn_env_def idle_env_def)
  have now: "date_now warn_env s div 1000 = 1000" for s
    by (simp add: warn_env_def idle_env_def)
  from scheduleTenMinuteWarnings_window [of "example_contest ''Weekly 2'' 2000" 2000 warn_env 1000 0 "[]"]
    a have 1: "armWarning warn_env 1000 (0, []) (example_contest ''Weekly 2'' 2000) =
     (1, [SetTimer (Num 400000) (example_contest ''Weekly 2'' 2000)])"
    by simp
  from scheduleTenMinuteWarnings_window [of "example_contest ''Weekly 1'' 1600" 1600 warn_env 1000 0 "[]"]
    b have 2: "armWarning warn_env 1000 (0, []) (example_contest ''Weekly 1'' 1600) = (0, [])"
    by simp
  from scheduleTenMinuteWarnings_window [of "example_contest ''Weekly 3'' 3400" 3400 warn_env 1000 0 "[]"]
    c have 3: "armWarning warn_env 1000 (0, []) (example_contest ''Weekly 3'' 3400) = (0, [])"
    by simp
  from scheduleTenMinuteWarnings_window [of _ _ warn_env _ _ "[]", THEN conjunct2, THEN conjunct2, rule_format, OF conjI, OF lc cc]
  have 4: "filter is_SetTimer (added [] (snd (scheduleTenMinuteWarnings warn_env []))) =
     [SetTimer (Num 400000) ((example_contest ''Weekly 2'' 2000)\<lparr>platform_tag := Val ''LeetCode''\<rparr>)]"
    by (simp add: now example_contest_def)
  from 1 2 3 4 show ?thesis by blast
qed


subsection \<open>Reminder composer\<close>








text \<open>
  Claim C10. A contest with a title and a start time whose duration is missing, null or
  zero is not skipped: the loop hands a field for it to the builder, which adds it when it
  accepts it, and the duration line of the field reads \<open>0 hours\<close>. Whether a contest is
  skipped does not depend on its duration.
\<close>

theorem missing_duration_renders_zero_hours:
  "(truthy_str (title c) \<and> truthy_num (startTime c) \<and>
    (duration c = Undefined \<or> duration c = Null \<or> duration c = Val (Num 0)) \<longrightarrow>
      \<not> incomplete c \<and>
      (addFields env (embed_fields e)
          (contest_field c (fst (formatContestTime env (startTime c) t))) = None \<longrightarrow>
       addContest env platform (e, t) c =
         (Inr (e\<lparr>embed_fields := embed_fields e
                 @ [contest_field c (fst (formatContestTime env (startTime c) t))]\<rparr>),
          snd (formatContestTime env (startTime c) t))) \<and>
      field_value (contest_field c starts) =
        calendar @ '' **Date & Time:** '' @ starts @ newline
        @ hourglass @ '' **Duration:** 0 hours'' @ newline
        @ (if truthy_str (url c)
           then link_sign @ '' [Join Now]('' @ show_str (url c) @ '')'' @ newline else [])
        @ (if truthy_str (description c)
           then memo @ '' '' @ take 1000 (show_str (description c)) else [])) \<and>
   incomplete (c\<lparr>duration := d\<rparr>) = incomplete c"
proof (intro conjI impI)
  assume a: "truthy_str (title c) \<and> truthy_num (startTime c) \<and>
    (duration c = Undefined \<or> duration c = Null \<or> duration c = Val (Num 0))"
  then show "\<not> incomplete c"
    by (simp add: incomplete_def)
  then show "addContest env platform (e, t) c =
         (Inr (e\<lparr>embed_fields := embed_fields e
                 @ [contest_field c (fst (formatContestTime env (startTime c) t))]\<rparr>),
          snd (formatContestTime env (startTime c) t))"
    if "addFields env (embed_fields e)
          (contest_field c (fst (formatContestTime env (startTime c) t))) = None"
    using that by (simp add: addContest_def Let_def split_beta)
  from a have "num_or_zero (duration c) = 0"
    by auto
  then show "field_value (contest_field c starts) =
        calendar @ '' **Date & Time:** '' @ starts @ newline
        @ hourglass @ '' **Duration:** 0 hours'' @ newline
        @ (if truthy_str (url c)
           then link_sign @ '' [Join Now]('' @ show_str (url c) @ '')'' @ newline else [])
        @ (if truthy_str (description c)
           then memo @ '' '' @ take 1000 (show_str (description c)) else [])"
    by (simp add: contest_field_def show_int_def)
next
  show "incomplete (c\<lparr>duration := d\<rparr>) = incomplete c"
    by (simp add: incomplete_def)
qed

theorem missing_duration_renders_zero_hours_witness:
  "truthy_str (title untimed_contest) \<and> truthy_num (startTime untimed_contest) \<and>
   duration untimed_contest = Undefined \<and>
   \<not> incomplete untimed_contest \<and>
   fst (addContest idle_env ''LeetCode'' (blank_embed, []) untimed_contest) =
     Inr (blank_embed\<lparr>embed_fields :=
       [\<lparr> field_name = fire @ '' Biweekly 7'',
          field_value = calendar @ '' **Date & Time:** some day IST'' @ newline
                        @ hourglass @ '' **Duration:** 0 hours'' @ newline \<rparr>]\<rparr>)"
  using missing_duration_renders_zero_hours
          [where c = untimed_contest and env = idle_env and platform = "''LeetCode''"
             and e = blank_embed and t = "[]" and starts = "''some day IST''" and d = Undefined]
  by (simp add: untimed_contest_def blank_embed_def idle_env_def formatContestTime_def
        contest_field_def)




subsection \<open>Delivery service\<close>

lemma try_backup_props:
  "\<exists>evs. snd (try_backup env cfg ch content t) = t @ evs \<and>
     (\<forall>c p outcome. ChannelSend c p outcome \<in> set evs \<longrightarrow>
            BACKUP_CHANNEL_ID cfg = Some c \<and> c \<noteq> [] \<and> c \<noteq> ch \<and> p = degraded content) \<and>
     filter admin_event evs = [] \<and>
     (fst (try_backup env cfg ch content t) \<noteq> None) = (\<exists>c p. ChannelSend c p None \<in> set evs) \<and>
     (\<forall>c p. ChannelSend c p None \<in> set evs \<longrightarrow>
            fst (try_backup env cfg ch content t) = Some (Message c p)) \<and>
     length (filter delivered evs) \<le> 1"
proof (cases "BACKUP_CHANNEL_ID cfg")
  case None
  then have "try_backup env cfg ch content t = (None, t @ [])"
    by (simp add: try_backup_def)
  then show ?thesis
    by (intro exI [of _ "[]"]) auto
next
  case (Some b)
  show ?thesis
  proof (cases "b \<noteq> [] \<and> ch \<noteq> b")
    case False
    with Some have "try_backup env cfg ch content t = (None, t @ [])"
      by (auto simp: try_backup_def)
    then show ?thesis
      by (intro exI [of _ "[]"]) auto
  next
    case True
    let ?t1 = "t @ [Log (''Attempting to send to backup channel: '' @ b)]"
    show ?thesis
    proof (cases "cache_get env ?t1 b")
      case False
      with Some True have "try_backup env cfg ch content t = (None, ?t1)"
        by (simp add: try_backup_def logToFile_def)
      then show ?thesis
        by (intro exI [of _ "[Log (''Attempting to send to backup channel: '' @ b)]"]) auto
    next
      case cached: True
      show ?thesis
      proof (cases "channel_send env ?t1 b (degraded content)")
        case None
        with Some True cached have "try_backup env cfg ch content t =
            (Some (Message b (degraded content)),
             t @ [Log (''Attempting to send to backup channel: '' @ b),
                  ChannelSend b (degraded content) None])"
          by (simp add: try_backup_def logToFile_def)
        with Some True show ?thesis
          by (intro exI [of _ "[Log (''Attempting to send to backup channel: '' @ b),
                  ChannelSend b (degraded content) None]"]) auto
      next
        case (Some m)
        with \<open>BACKUP_CHANNEL_ID cfg = Some b\<close> True cached have "try_backup env cfg ch content t =
            (None,
             t @ [Log (''Attempting to send to backup channel: '' @ b),
                  ChannelSend b (degraded content) (Some m),
                  Log (''Failed to send to backup channel: '' @ m)])"
          by (simp add: try_backup_def logToFile_def)
        with \<open>BACKUP_CHANNEL_ID cfg = Some b\<close> True show ?thesis
          by (intro exI [of _ "[Log (''Attempting to send to backup channel: '' @ b),
                  ChannelSend b (degraded content) (Some m),
                  Log (''Failed to send to backup channel: '' @ m)]"]) auto
      qed
    qed
  qed
qed

lemma notify_admin_props:
  "\<exists>evs. notify_admin env cfg ch err t = t @ evs \<and>
     filter is_ChannelSend evs = [] \<and>
     (\<forall>a. DISCORD_ADMIN_ID cfg = Some a \<and> a \<noteq> [] \<longrightarrow>
          (\<exists>outcome. UserFetch a outcome \<in> set evs)) \<and>
     filter delivered evs = []"
proof (cases "DISCORD_ADMIN_ID cfg")
  case None
  then have "notify_admin env cfg ch err t = t @ []"
    by (simp add: notify_admin_def)
  with None show ?thesis
    by (intro exI [of _ "[]"]) auto
next
  case (Some a)
  show ?thesis
  proof (cases "a = []")
    case True
    with Some have "notify_admin env cfg ch err t = t @ []"
      by (simp add: notify_admin_def)
    with Some True show ?thesis
      by (intro exI [of _ "[]"]) auto
  next
    case False
    let ?text = "warning_sign @ '' Failed to send reminder to channel '' @ ch @ '': '' @ err"
    let ?t1 = "t @ [UserFetch a (users_fetch env t a)]"
    show ?thesis
    proof (cases "users_fetch env t a")
      case (Some m)
      with \<open>DISCORD_ADMIN_ID cfg = Some a\<close> False
      have "notify_admin env cfg ch err t =
              t @ [UserFetch a (Some m), Log (''Failed to notify admin: '' @ m)]"
        by (simp add: notify_admin_def logToFile_def)
      with \<open>DISCORD_ADMIN_ID cfg = Some a\<close> show ?thesis
        by (intro exI [of _ "[UserFetch a (Some m), Log (''Failed to notify admin: '' @ m)]"]) auto
    next
      case None
      show ?thesis
      proof (cases "user_send env (t @ [UserFetch a None]) a ?text")
        case (Some m)
        with None \<open>DISCORD_ADMIN_ID cfg = Some a\<close> False
        have "notify_admin env cfg ch err t =
              t @ [UserFetch a None, UserSend a ?text (Some m),
                   Log (''Failed to notify admin: '' @ m)]"
          by (simp add: notify_admin_def logToFile_def)
        with \<open>DISCORD_ADMIN_ID cfg = Some a\<close> show ?thesis
          by (intro exI [of _ "[UserFetch a None, UserSend a ?text (Some m),
                   Log (''Failed to notify admin: '' @ m)]"]) auto
      next
        case sent: None
        with None \<open>DISCORD_ADMIN_ID cfg = Some a\<close> False
        have "notify_admin env cfg ch err t =
              t @ [UserFetch a None, UserSend a ?text None]"
          by (simp add: notify_admin_def logToFile_def)
        with \<open>DISCORD_ADMIN_ID cfg = Some a\<close> show ?thesis
          by (intro exI [of _ "[UserFetch a None, UserSend a ?text None]"]) auto
      qed
    qed
  qed
qed

lemma not_ChannelSend:
  assumes "filter is_ChannelSend evs = []"
  shows "ChannelSend c p outcome \<notin> set evs"
proof
  assume "ChannelSend c p outcome \<in> set evs"
  then have "ChannelSend c p outcome \<in> set (filter is_ChannelSend evs)"
    by simp
  with assms show False by simp
qed

lemma sendDiscordMessage_primary_ok:
  assumes "cache_get env t ch" and "channel_send env t ch content = None"
  shows "sendDiscordMessage env cfg ch content t =
           (Some (Message ch content), t @ [ChannelSend ch content None])"
  using assms by (simp add: sendDiscordMessage_def)

lemma sendDiscordMessage_primary_failed:
  assumes "primary = (if cache_get env t ch then channel_send env t ch content
                      else Some (''Channel not found: '' @ ch))"
    and "primary = Some err"
    and "pre = (if cache_get env t ch then [ChannelSend ch content (Some err)] else [])"
    and "t2 = t @ pre @ [Log (''Error sending Discord message: '' @ err)]"
  shows "sendDiscordMessage env cfg ch content t =
           (case fst (try_backup env cfg ch content t2) of
              Some m \<Rightarrow> (Some m, snd (try_backup env cfg ch content t2))
            | None \<Rightarrow> (None, notify_admin env cfg ch err (snd (try_backup env cfg ch content t2))))"
proof (cases "cache_get env t ch")
  case True
  with assms have "channel_send env t ch content = Some err"
    and "t2 = t @ [ChannelSend ch content (Some err)]
               @ [Log (''Error sending Discord message: '' @ err)]"
    by simp_all
  with True show ?thesis
    by (simp add: sendDiscordMessage_def Let_def split_beta logToFile_def split: option.splits)
next
  case False
  with assms have "err = ''Channel not found: '' @ ch"
    and "t2 = t @ [Log (''Error sending Discord message: '' @ err)]"
    by simp_all
  with False show ?thesis
    by (simp add: sendDiscordMessage_def Let_def split_beta logToFile_def split: option.splits)
qed

lemma sendDiscordMessage_props:
  "\<exists>evs. snd (sendDiscordMessage env cfg ch content t) = t @ evs \<and>
     (\<forall>c p outcome. ChannelSend c p outcome \<in> set evs \<longrightarrow>
           (c = ch \<and> p = content) \<or>
           (BACKUP_CHANNEL_ID cfg = Some c \<and> c \<noteq> [] \<and> c \<noteq> ch \<and> p = degraded content \<and>
            ChannelSend ch content None \<notin> set evs)) \<and>
     (\<forall>b p. ChannelSend b p None \<in> set evs \<and> b \<noteq> ch \<longrightarrow>
           fst (sendDiscordMessage env cfg ch content t) = Some (Message b p) \<and>
           filter admin_event evs = []) \<and>
     (ChannelSend ch content None \<in> set evs \<longrightarrow>
           fst (sendDiscordMessage env cfg ch content t) = Some (Message ch content) \<and>
           evs = [ChannelSend ch content None]) \<and>
     (\<forall>a. fst (sendDiscordMessage env cfg ch content t) = None \<and>
           DISCORD_ADMIN_ID cfg = Some a \<and> a \<noteq> [] \<longrightarrow>
           (\<exists>outcome. UserFetch a outcome \<in> set evs)) \<and>
     (fst (sendDiscordMessage env cfg ch content t) \<noteq> None) =
           (\<exists>c p. ChannelSend c p None \<in> set evs) \<and>
     length (filter delivered evs) \<le> 1"
proof -
  define primary where "primary = (if cache_get env t ch then channel_send env t ch content
                      else Some (''Channel not found: '' @ ch))"
  show ?thesis
  proof (cases primary)
    case None
    then have "cache_get env t ch" and "channel_send env t ch content = None"
      by (auto simp: primary_def split: if_splits)
    then have run: "sendDiscordMessage env cfg ch content t =
           (Some (Message ch content), t @ [ChannelSend ch content None])"
      by (rule sendDiscordMessage_primary_ok)
    show ?thesis
      by (rule exI [of _ "[ChannelSend ch content None]"]) (simp add: run)
  next
    case (Some err)
    define pre where "pre = (if cache_get env t ch then [ChannelSend ch content (Some err)] else [])"
    define errlog where "errlog = Log (''Error sending Discord message: '' @ err)"
    define t2 where "t2 = t @ pre @ [errlog]"
    have t2: "t2 = t @ pre @ [Log (''Error sending Discord message: '' @ err)]"
      by (simp add: t2_def errlog_def)
    note run = sendDiscordMessage_primary_failed [OF primary_def Some pre_def t2, of cfg]
    have errlog [simp]: "errlog \<noteq> ChannelSend c p outcome" "ChannelSend c p outcome \<noteq> errlog"
      "errlog \<noteq> UserFetch a outcome" "UserFetch a outcome \<noteq> errlog" "\<not> admin_event errlog"
      "\<not> delivered errlog"
      for c p outcome a
      by (simp_all add: errlog_def)
    have pre_sends: "c = ch \<and> p = content \<and> outcome = Some err"
      if "ChannelSend c p outcome \<in> set pre" for c p outcome
      using that by (auto simp: pre_def split: if_splits)
    have pre_admin: "filter admin_event pre = []"
      by (simp add: pre_def)
    from try_backup_props [of env cfg ch content t2]
    obtain evs_b where b: "snd (try_backup env cfg ch content t2) = t2 @ evs_b \<and>
     (\<forall>c p outcome. ChannelSend c p outcome \<in> set evs_b \<longrightarrow>
            BACKUP_CHANNEL_ID cfg = Some c \<and> c \<noteq> [] \<and> c \<noteq> ch \<and> p = degraded content) \<and>
     filter admin_event evs_b = [] \<and>
     (fst (try_backup env cfg ch content t2) \<noteq> None) = (\<exists>c p. ChannelSend c p None \<in> set evs_b) \<and>
     (\<forall>c p. ChannelSend c p None \<in> set evs_b \<longrightarrow>
            fst (try_backup env cfg ch content t2) = Some (Message c p)) \<and>
     length (filter delivered evs_b) \<le> 1" ..
    note b1 = b [THEN conjunct1]
      and b2 = b [THEN conjunct2, THEN conjunct1, rule_format]
      and b3 = b [THEN conjunct2, THEN conjunct2, THEN conjunct1]
      and b4 = b [THEN conjunct2, THEN conjunct2, THEN conjunct2, THEN conjunct1]
      and b5 = b [THEN conjunct2, THEN conjunct2, THEN conjunct2, THEN conjunct2, THEN conjunct1,
                  rule_format]
      and b6 = b [THEN conjunct2, THEN conjunct2, THEN conjunct2, THEN conjunct2, THEN conjunct2]
    have pre_no_ok: "ChannelSend c p None \<notin> set pre" for c p
      by (simp add: pre_def)
    have pre_delivered: "filter delivered pre = []"
      by (simp add: pre_def)
    have b_no_primary: "ChannelSend ch p outcome \<notin> set evs_b" for p outcome
      using b2 [of ch p outcome] by blast
    show ?thesis
    proof (cases "fst (try_backup env cfg ch content t2)")
      case (Some m)
      with run have res: "sendDiscordMessage env cfg ch content t = (Some m, t2 @ evs_b)"
        by (simp add: b1)
      let ?evs = "pre @ [errlog] @ evs_b"
      have no_primary_ok: "ChannelSend ch content None \<notin> set ?evs"
        using pre_no_ok [of ch content] b_no_primary [of content None] by simp
      have 1: "snd (sendDiscordMessage env cfg ch content t) = t @ ?evs"
        by (simp add: res t2_def)
      have 2: "(c = ch \<and> p = content) \<or>
           (BACKUP_CHANNEL_ID cfg = Some c \<and> c \<noteq> [] \<and> c \<noteq> ch \<and> p = degraded content \<and>
            ChannelSend ch content None \<notin> set ?evs)"
        if "ChannelSend c p outcome \<in> set ?evs" for c p outcome
      proof -
        from that have "ChannelSend c p outcome \<in> set pre \<or> ChannelSend c p outcome \<in> set evs_b"
          by simp
        then show ?thesis
        proof
          assume "ChannelSend c p outcome \<in> set pre"
          then show ?thesis using pre_sends [of c p outcome] by blast
        next
          assume "ChannelSend c p outcome \<in> set evs_b"
          then show ?thesis using b2 [of c p outcome] no_primary_ok by blast
        qed
      qed
      have 3: "fst (sendDiscordMessage env cfg ch content t) = Some (Message b p) \<and>
           filter admin_event ?evs = []"
        if "ChannelSend b p None \<in> set ?evs" and "b \<noteq> ch" for b p
      proof -
        from that(1) pre_no_ok [of b p] have "ChannelSend b p None \<in> set evs_b"
          by simp
        then have "fst (try_backup env cfg ch content t2) = Some (Message b p)"
          using b5 [of b p] by blast
        with Some res show ?thesis
          by (simp add: pre_admin b3)
      qed
      have 4: "fst (sendDiscordMessage env cfg ch content t) = Some (Message ch content) \<and>
           ?evs = [ChannelSend ch content None]"
        if "ChannelSend ch content None \<in> set ?evs"
        using that no_primary_ok by blast
      have 5: "\<exists>outcome. UserFetch a outcome \<in> set ?evs"
        if "fst (sendDiscordMessage env cfg ch content t) = None" for a
        using that res by simp
      have "\<exists>c p. ChannelSend c p None \<in> set evs_b"
        using b4 Some by simp
      then have "\<exists>c p. ChannelSend c p None \<in> set ?evs"
        by auto
      then have 6: "(fst (sendDiscordMessage env cfg ch content t) \<noteq> None) =
           (\<exists>c p. ChannelSend c p None \<in> set ?evs)"
        using res by simp
      show ?thesis
      proof (intro exI [of _ ?evs] conjI allI impI)
        show "snd (sendDiscordMessage env cfg ch content t) = t @ ?evs" by (rule 1)
        show "(c = ch \<and> p = content) \<or>
           (BACKUP_CHANNEL_ID cfg = Some c \<and> c \<noteq> [] \<and> c \<noteq> ch \<and> p = degraded content \<and>
            ChannelSend ch content None \<notin> set ?evs)"
          if "ChannelSend c p outcome \<in> set ?evs" for c p outcome
          using that by (rule 2)
        show "fst (sendDiscordMessage env cfg ch content t) = Some (Message b p)"
          if "ChannelSend b p None \<in> set ?evs \<and> b \<noteq> ch" for b p
          using 3 [of b p] that by blast
        show "filter admin_event ?evs = []"
          if "ChannelSend b p None \<in> set ?evs \<and> b \<noteq> ch" for b p
          using 3 [of b p] that by blast
        show "fst (sendDiscordMessage env cfg ch content t) = Some (Message ch content)"
          if "ChannelSend ch content None \<in> set ?evs"
          using 4 that by blast
        show "?evs = [ChannelSend ch content None]"
          if "ChannelSend ch content None \<in> set ?evs"
          using 4 that by blast
        show "\<exists>outcome. UserFetch a outcome \<in> set ?evs"
          if h: "fst (sendDiscordMessage env cfg ch content t) = None \<and>
              DISCORD_ADMIN_ID cfg = Some a \<and> a \<noteq> []" for a
          by (rule 5 [OF h [THEN conjunct1]])
        show "(fst (sendDiscordMessage env cfg ch content t) \<noteq> None) =
           (\<exists>c p. ChannelSend c p None \<in> set ?evs)" by (rule 6)
        show "length (filter delivered ?evs) \<le> 1"
          using b6 by (simp add: pre_delivered)
      qed
    next
      case None
      from notify_admin_props [of env cfg ch err "t2 @ evs_b"]
      obtain evs_a where a: "notify_admin env cfg ch err (t2 @ evs_b) = (t2 @ evs_b) @ evs_a \<and>
         filter is_ChannelSend evs_a = [] \<and>
         (\<forall>a. DISCORD_ADMIN_ID cfg = Some a \<and> a \<noteq> [] \<longrightarrow>
            (\<exists>outcome. UserFetch a outcome \<in> set evs_a)) \<and>
         filter delivered evs_a = []" ..
      note a1 = a [THEN conjunct1]
        and a2 = a [THEN conjunct2, THEN conjunct1]
        and a3 = a [THEN conjunct2, THEN conjunct2, THEN conjunct1, rule_format]
        and a4 = a [THEN conjunct2, THEN conjunct2, THEN conjunct2]
      from None run have res: "sendDiscordMessage env cfg ch content t = (None, (t2 @ evs_b) @ evs_a)"
        by (simp add: b1 a1)
      let ?evs = "pre @ [errlog] @ evs_b @ evs_a"
      have b_no_ok: "ChannelSend c p None \<notin> set evs_b" for c p
        using b4 None by simp
      have no_ok: "ChannelSend c p None \<notin> set ?evs" for c p
        using pre_no_ok [of c p] b_no_ok [of c p] not_ChannelSend [OF a2, of c p None] by simp
      have 1: "snd (sendDiscordMessage env cfg ch content t) = t @ ?evs"
        by (simp add: res t2_def)
      have 2: "(c = ch \<and> p = content) \<or>
           (BACKUP_CHANNEL_ID cfg = Some c \<and> c \<noteq> [] \<and> c \<noteq> ch \<and> p = degraded content \<and>
            ChannelSend ch content None \<notin> set ?evs)"
        if "ChannelSend c p outcome \<in> set ?evs" for c p outcome
      proof -
        from that not_ChannelSend [OF a2, of c p outcome]
        have "ChannelSend c p outcome \<in> set pre \<or> ChannelSend c p outcome \<in> set evs_b"
          by simp
        then show ?thesis
        proof
          assume "ChannelSend c p outcome \<in> set pre"
          then show ?thesis using pre_sends [of c p outcome] by blast
        next
          assume "ChannelSend c p outcome \<in> set evs_b"
          then show ?thesis using b2 [of c p outcome] no_ok [of ch content] by blast
        qed
      qed
      have 3: "fst (sendDiscordMessage env cfg ch content t) = Some (Message b p) \<and>
           filter admin_event ?evs = []"
        if "ChannelSend b p None \<in> set ?evs" and "b \<noteq> ch" for b p
        using that(1) no_ok [of b p] by blast
      have 4: "fst (sendDiscordMessage env cfg ch content t) = Some (Message ch content) \<and>
           ?evs = [ChannelSend ch content None]"
        if "ChannelSend ch content None \<in> set ?evs"
        using that no_ok [of ch content] by blast
      have 5: "\<exists>outcome. UserFetch a outcome \<in> set ?evs"
        if "fst (sendDiscordMessage env cfg ch content t) = None"
          and "DISCORD_ADMIN_ID cfg = Some a" and "a \<noteq> []" for a
      proof -
        from a3 [of a] that(2,3) obtain outcome where "UserFetch a outcome \<in> set evs_a" by blast
        then have "UserFetch a outcome \<in> set ?evs" by simp
        then show ?thesis ..
      qed
      have 6: "(fst (sendDiscordMessage env cfg ch content t) \<noteq> None) =
           (\<exists>c p. ChannelSend c p None \<in> set ?evs)"
        using no_ok res by simp
      show ?thesis
      proof (intro exI [of _ ?evs] conjI allI impI)
        show "snd (sendDiscordMessage env cfg ch content t) = t @ ?evs" by (rule 1)
        show "(c = ch \<and> p = content) \<or>
           (BACKUP_CHANNEL_ID cfg = Some c \<and> c \<noteq> [] \<and> c \<noteq> ch \<and> p = degraded content \<and>
            ChannelSend ch content None \<notin> set ?evs)"
          if "ChannelSend c p outcome \<in> set ?evs" for c p outcome
          using that by (rule 2)
        show "fst (sendDiscordMessage env cfg ch content t) = Some (Message b p)"
          if "ChannelSend b p None \<in> set ?evs \<and> b \<noteq> ch" for b p
          using 3 [of b p] that by blast
        show "filter admin_event ?evs = []"
          if "ChannelSend b p None \<in> set ?evs \<and> b \<noteq> ch" for b p
          using 3 [of b p] that by blast
        show "fst (sendDiscordMessage env cfg ch content t) = Some (Message ch content)"
          if "ChannelSend ch content None \<in> set ?evs"
          using 4 that by blast
        show "?evs = [ChannelSend ch content None]"
          if "ChannelSend ch content None \<in> set ?evs"
          using 4 that by blast
        show "\<exists>outcome. UserFetch a outcome \<in> set ?evs"
          if h: "fst (sendDiscordMessage env cfg ch content t) = None \<and>
              DISCORD_ADMIN_ID cfg = Some a \<and> a \<noteq> []" for a
          by (rule 5 [OF h [THEN conjunct1] h [THEN conjunct2, THEN conjunct1]
                         h [THEN conjunct2, THEN conjunct2]])
        show "(fst (sendDiscordMessage env cfg ch content t) \<noteq> None) =
           (\<exists>c p. ChannelSend c p None \<in> set ?evs)" by (rule 6)
        show "length (filter delivered ?evs) \<le> 1"
          using b6 by (simp add: pre_delivered a4)
      qed
    qed
  qed
qed

text \<open>The steps of the administrator notification, when an administrator is configured:
  the lookup, and after a lookup that succeeds the direct message with the failure text.\<close>

lemma notify_admin_events:
  assumes "DISCORD_ADMIN_ID cfg = Some a" and "a \<noteq> []"
  shows "\<exists>evs. notify_admin env cfg ch err t = t @ evs \<and>
           ((\<exists>m. filter admin_event evs = [UserFetch a (Some m)]) \<or>
            (\<exists>sent. filter admin_event evs =
               [UserFetch a None,
                UserSend a (warning_sign @ '' Failed to send reminder to channel '' @ ch
                              @ '': '' @ err) sent]))"
proof -
  define note_text where
    "note_text = warning_sign @ '' Failed to send reminder to channel '' @ ch @ '': '' @ err"
  show ?thesis
    unfolding note_text_def [symmetric]
  proof (cases "users_fetch env t a")
    case (Some m)
    define faillog where "faillog = Log (''Failed to notify admin: '' @ m)"
    have fl: "\<not> admin_event faillog"
      by (simp add: faillog_def)
    from Some assms have "notify_admin env cfg ch err t = t @ [UserFetch a (Some m), faillog]"
      by (simp add: notify_admin_def logToFile_def faillog_def)
    moreover have "filter admin_event [UserFetch a (Some m), faillog] = [UserFetch a (Some m)]"
      by (simp add: fl)
    ultimately show "\<exists>evs. notify_admin env cfg ch err t = t @ evs \<and>
           ((\<exists>m. filter admin_event evs = [UserFetch a (Some m)]) \<or>
            (\<exists>sent. filter admin_event evs = [UserFetch a None, UserSend a note_text sent]))"
      by (intro exI [of _ "[UserFetch a (Some m), faillog]"] conjI disjI1 exI [of _ m])
  next
    case None
    show "\<exists>evs. notify_admin env cfg ch err t = t @ evs \<and>
           ((\<exists>m. filter admin_event evs = [UserFetch a (Some m)]) \<or>
            (\<exists>sent. filter admin_event evs = [UserFetch a None, UserSend a note_text sent]))"
    proof (cases "user_send env (t @ [UserFetch a None]) a note_text")
      case (Some m)
      define faillog where "faillog = Log (''Failed to notify admin: '' @ m)"
      have fl: "\<not> admin_event faillog"
        by (simp add: faillog_def)
      from Some None assms
      have "notify_admin env cfg ch err t =
              t @ [UserFetch a None, UserSend a note_text (Some m), faillog]"
        by (simp add: notify_admin_def logToFile_def faillog_def note_text_def)
      moreover have "filter admin_event [UserFetch a None, UserSend a note_text (Some m), faillog] =
              [UserFetch a None, UserSend a note_text (Some m)]"
        by (simp add: fl)
      ultimately show ?thesis
        by (intro exI [of _ "[UserFetch a None, UserSend a note_text (Some m), faillog]"]
              conjI disjI2 exI [of _ "Some m"])
    next
      case sent: None
      from sent None assms
      have "notify_admin env cfg ch err t = t @ [UserFetch a None, UserSend a note_text None]"
        by (simp add: notify_admin_def logToFile_def note_text_def)
      moreover have "filter admin_event [UserFetch a None, UserSend a note_text None] =
              [UserFetch a None, UserSend a note_text None]"
        by simp
      ultimately show ?thesis
        by (intro exI [of _ "[UserFetch a None, UserSend a note_text None]"]
              conjI disjI2 exI [of _ "None"])
    qed
  qed
qed

text \<open>A call that returns \<open>null\<close> with an administrator configured has taken exactly these
  steps of the notification, and the text names the channel and the error of the primary
  send.\<close>

lemma sendDiscordMessage_admin:
  assumes null: "fst (sendDiscordMessage env cfg ch content t) = None"
    and adm: "DISCORD_ADMIN_ID cfg = Some a" "a \<noteq> []"
    and failed: "(if cache_get env t ch then channel_send env t ch content
                  else Some (''Channel not found: '' @ ch)) = Some err"
  shows "(\<exists>m. filter admin_event (added t (snd (sendDiscordMessage env cfg ch content t))) =
                [UserFetch a (Some m)]) \<or>
         (\<exists>sent. filter admin_event (added t (snd (sendDiscordMessage env cfg ch content t))) =
                [UserFetch a None,
                 UserSend a (warning_sign @ '' Failed to send reminder to channel '' @ ch
                               @ '': '' @ err) sent])"
proof -
  define note_text where
    "note_text = warning_sign @ '' Failed to send reminder to channel '' @ ch @ '': '' @ err"
  define primary where "primary = (if cache_get env t ch then channel_send env t ch content
                      else Some (''Channel not found: '' @ ch))"
  have Some: "primary = Some err"
    using failed by (simp add: primary_def)
  define pre where "pre = (if cache_get env t ch then [ChannelSend ch content (Some err)] else [])"
  define errlog where "errlog = Log (''Error sending Discord message: '' @ err)"
  define t2 where "t2 = t @ pre @ [errlog]"
  have t2: "t2 = t @ pre @ [Log (''Error sending Discord message: '' @ err)]"
    by (simp add: t2_def errlog_def)
  note run = sendDiscordMessage_primary_failed [OF primary_def Some pre_def t2, of cfg]
  have errlog: "\<not> admin_event errlog"
    by (simp add: errlog_def)
  have pre_admin: "filter admin_event pre = []"
    by (simp add: pre_def)
  from try_backup_props [of env cfg ch content t2]
  obtain evs_b where b: "snd (try_backup env cfg ch content t2) = t2 @ evs_b \<and>
     (\<forall>c p outcome. ChannelSend c p outcome \<in> set evs_b \<longrightarrow>
            BACKUP_CHANNEL_ID cfg = Some c \<and> c \<noteq> [] \<and> c \<noteq> ch \<and> p = degraded content) \<and>
     filter admin_event evs_b = [] \<and>
     (fst (try_backup env cfg ch content t2) \<noteq> None) = (\<exists>c p. ChannelSend c p None \<in> set evs_b) \<and>
     (\<forall>c p. ChannelSend c p None \<in> set evs_b \<longrightarrow>
            fst (try_backup env cfg ch content t2) = Some (Message c p)) \<and>
     length (filter delivered evs_b) \<le> 1" ..
  note b1 = b [THEN conjunct1]
    and b3 = b [THEN conjunct2, THEN conjunct2, THEN conjunct1]
  have no_backup: "fst (try_backup env cfg ch content t2) = None"
  proof (cases "fst (try_backup env cfg ch content t2)")
    case None
    then show ?thesis .
  next
    case (Some m)
    with run have "fst (sendDiscordMessage env cfg ch content t) = Some m"
      by simp
    with null show ?thesis
      by simp
  qed
  from notify_admin_events [OF adm, of env ch err "t2 @ evs_b"]
  obtain evs_a where a: "notify_admin env cfg ch err (t2 @ evs_b) = (t2 @ evs_b) @ evs_a \<and>
           ((\<exists>m. filter admin_event evs_a = [UserFetch a (Some m)]) \<or>
            (\<exists>sent. filter admin_event evs_a = [UserFetch a None, UserSend a note_text sent]))"
    unfolding note_text_def ..
  from no_backup run have "snd (sendDiscordMessage env cfg ch content t) = (t2 @ evs_b) @ evs_a"
    by (simp add: b1 a [THEN conjunct1])
  then have "added t (snd (sendDiscordMessage env cfg ch content t)) = pre @ [errlog] @ evs_b @ evs_a"
    by (simp add: added_def t2_def)
  then have "filter admin_event (added t (snd (sendDiscordMessage env cfg ch content t))) =
               filter admin_event evs_a"
    by (simp add: pre_admin errlog b3)
  with a [THEN conjunct2] show ?thesis
    unfolding note_text_def by simp
qed

text \<open>
  Claim C2. When the primary send fails, a send on another channel happens only if a
  backup channel is configured and differs from the primary, and it carries the degraded
  payload: text only, annotated with the failure. If the backup send is delivered, the
  call returns that message and no step of the administrator notification is taken. If
  nothing is delivered and an administrator is configured, the notification is attempted:
  the administrator is looked up, and the steps of the notification are then exactly the
  lookup alone when it fails, or the lookup followed by one direct message to the
  administrator whose text names the primary channel and the error of the primary send.
  The call returns \<open>null\<close> exactly when no send was delivered; it always returns.
\<close>

theorem sendDiscordMessage_fallback:
  "(\<forall>c p outcome.
      ChannelSend c p outcome \<in> set (added t (snd (sendDiscordMessage env cfg channelId content t))) \<longrightarrow>
        (c = channelId \<and> p = content) \<or>
        (BACKUP_CHANNEL_ID cfg = Some c \<and> c \<noteq> [] \<and> c \<noteq> channelId \<and> p = degraded content \<and>
         ChannelSend channelId content None
           \<notin> set (added t (snd (sendDiscordMessage env cfg channelId content t))))) \<and>
   degraded content =
     Obj (warning_sign @ '' Failed to send to main channel. Original message: ''
            @ original_text content) [] \<and>
   (\<forall>b p. ChannelSend b p None \<in> set (added t (snd (sendDiscordMessage env cfg channelId content t)))
            \<and> b \<noteq> channelId \<longrightarrow>
      fst (sendDiscordMessage env cfg channelId content t) = Some (Message b p) \<and>
      filter admin_event (added t (snd (sendDiscordMessage env cfg channelId content t))) = []) \<and>
   (\<forall>a. fst (sendDiscordMessage env cfg channelId content t) = None \<and>
        DISCORD_ADMIN_ID cfg = Some a \<and> a \<noteq> [] \<longrightarrow>
      (\<exists>outcome. UserFetch a outcome
          \<in> set (added t (snd (sendDiscordMessage env cfg channelId content t))))) \<and>
   (\<forall>a error_message.
        fst (sendDiscordMessage env cfg channelId content t) = None \<and>
        DISCORD_ADMIN_ID cfg = Some a \<and> a \<noteq> [] \<and>
        (if cache_get env t channelId then channel_send env t channelId content
         else Some (''Channel not found: '' @ channelId)) = Some error_message \<longrightarrow>
      (\<exists>m. filter admin_event (added t (snd (sendDiscordMessage env cfg channelId content t))) =
             [UserFetch a (Some m)]) \<or>
      (\<exists>sent. filter admin_event (added t (snd (sendDiscordMessage env cfg channelId content t))) =
             [UserFetch a None,
              UserSend a (warning_sign @ '' Failed to send reminder to channel '' @ channelId
                            @ '': '' @ error_message) sent])) \<and>
   (fst (sendDiscordMessage env cfg channelId content t) \<noteq> None) =
     (\<exists>c p. ChannelSend c p None
         \<in> set (added t (snd (sendDiscordMessage env cfg channelId content t))))"
proof -
  from sendDiscordMessage_props [of env cfg channelId content t]
  obtain evs where p: "snd (sendDiscordMessage env cfg channelId content t) = t @ evs \<and>
     (\<forall>c p outcome. ChannelSend c p outcome \<in> set evs \<longrightarrow>
           (c = channelId \<and> p = content) \<or>
           (BACKUP_CHANNEL_ID cfg = Some c \<and> c \<noteq> [] \<and> c \<noteq> channelId \<and> p = degraded content \<and>
            ChannelSend channelId content None \<notin> set evs)) \<and>
     (\<forall>b p. ChannelSend b p None \<in> set evs \<and> b \<noteq> channelId \<longrightarrow>
           fst (sendDiscordMessage env cfg channelId content t) = Some (Message b p) \<and>
           filter admin_event evs = []) \<and>
     (ChannelSend channelId content None \<in> set evs \<longrightarrow>
           fst (sendDiscordMessage env cfg channelId content t) = Some (Message channelId content) \<and>
           evs = [ChannelSend channelId content None]) \<and>
     (\<forall>a. fst (sendDiscordMessage env cfg channelId content t) = None \<and>
           DISCORD_ADMIN_ID cfg = Some a \<and> a \<noteq> [] \<longrightarrow>
           (\<exists>outcome. UserFetch a outcome \<in> set evs)) \<and>
     (fst (sendDiscordMessage env cfg channelId content t) \<noteq> None) =
           (\<exists>c p. ChannelSend c p None \<in> set evs) \<and>
     length (filter delivered evs) \<le> 1" ..
  have ad: "added t (snd (sendDiscordMessage env cfg channelId content t)) = evs"
    using p [THEN conjunct1] by (simp add: added_def)
  have notified: "\<forall>a error_message.
        fst (sendDiscordMessage env cfg channelId content t) = None \<and>
        DISCORD_ADMIN_ID cfg = Some a \<and> a \<noteq> [] \<and>
        (if cache_get env t channelId then channel_send env t channelId content
         else Some (''Channel not found: '' @ channelId)) = Some error_message \<longrightarrow>
      (\<exists>m. filter admin_event evs = [UserFetch a (Some m)]) \<or>
      (\<exists>sent. filter admin_event evs =
             [UserFetch a None,
              UserSend a (warning_sign @ '' Failed to send reminder to channel '' @ channelId
                            @ '': '' @ error_message) sent])"
  proof (intro allI impI)
    fix a error_message
    assume h: "fst (sendDiscordMessage env cfg channelId content t) = None \<and>
        DISCORD_ADMIN_ID cfg = Some a \<and> a \<noteq> [] \<and>
        (if cache_get env t channelId then channel_send env t channelId content
         else Some (''Channel not found: '' @ channelId)) = Some error_message"
    show "(\<exists>m. filter admin_event evs = [UserFetch a (Some m)]) \<or>
      (\<exists>sent. filter admin_event evs =
             [UserFetch a None,
              UserSend a (warning_sign @ '' Failed to send reminder to channel '' @ channelId
                            @ '': '' @ error_message) sent])"
      using sendDiscordMessage_admin
              [OF h [THEN conjunct1] h [THEN conjunct2, THEN conjunct1]
                  h [THEN conjunct2, THEN conjunct2, THEN conjunct1]
                  h [THEN conjunct2, THEN conjunct2, THEN conjunct2]]
      unfolding ad .
  qed
  show ?thesis
    unfolding ad
    using notified
          p [THEN conjunct2, THEN conjunct1]
          p [THEN conjunct2, THEN conjunct2, THEN conjunct1]
          p [THEN conjunct2, THEN conjunct2, THEN conjunct2, THEN conjunct2, THEN conjunct1]
          p [THEN conjunct2, THEN conjunct2, THEN conjunct2, THEN conjunct2, THEN conjunct2,
             THEN conjunct1]
          degraded_def [of content]
    by (intro conjI)
qed

theorem sendDiscordMessage_fallback_witness:
  "sendDiscordMessage primary_down_env full_cfg ''general'' (Plain ''hello'') [] =
     (Some (Message ''backup'' (degraded (Plain ''hello''))),
      [ChannelSend ''general'' (Plain ''hello'') (Some ''Missing Access''),
       Log ''Error sending Discord message: Missing Access'',
       Log ''Attempting to send to backup channel: backup'',
       ChannelSend ''backup'' (degraded (Plain ''hello'')) None]) \<and>
   sendDiscordMessage dead_env full_cfg ''general'' (Plain ''hello'') [] =
     (None,
      [ChannelSend ''general'' (Plain ''hello'') (Some ''Missing Access''),
       Log ''Error sending Discord message: Missing Access'',
       Log ''Attempting to send to backup channel: backup'',
       ChannelSend ''backup'' (degraded (Plain ''hello'')) (Some ''Missing Access''),
       Log ''Failed to send to backup channel: Missing Access'',
       UserFetch ''admin'' (Some ''Unknown User''),
       Log ''Failed to notify admin: Unknown User'']) \<and>
   sendDiscordMessage dead_env plain_cfg ''general'' (Plain ''hello'') [] =
     (None,
      [ChannelSend ''general'' (Plain ''hello'') (Some ''Missing Access''),
       Log ''Error sending Discord message: Missing Access'']) \<and>
   sendDiscordMessage channels_down_env full_cfg ''general'' (Plain ''hello'') [] =
     (None,
      [ChannelSend ''general'' (Plain ''hello'') (Some ''Missing Access''),
       Log ''Error sending Discord message: Missing Access'',
       Log ''Attempting to send to backup channel: backup'',
       ChannelSend ''backup'' (degraded (Plain ''hello'')) (Some ''Missing Access''),
       Log ''Failed to send to backup channel: Missing Access'',
       UserFetch ''admin'' None,
       UserSend ''admin''
         (warning_sign @ '' Failed to send reminder to channel general: Missing Access'') None]) \<and>
   filter admin_event
       (added [] (snd (sendDiscordMessage channels_down_env full_cfg ''general''
                         (Plain ''hello'') []))) =
     [UserFetch ''admin'' None,
      UserSend ''admin''
        (warning_sign @ '' Failed to send reminder to channel general: Missing Access'') None]"
  using sendDiscordMessage_fallback [where t = "[]" and env = primary_down_env and cfg = full_cfg
          and channelId = "''general''" and content = "Plain ''hello''"]
        sendDiscordMessage_fallback [where t = "[]" and env = dead_env and cfg = full_cfg
          and channelId = "''general''" and content = "Plain ''hello''"]
        sendDiscordMessage_fallback [where t = "[]" and env = dead_env and cfg = plain_cfg
          and channelId = "''general''" and content = "Plain ''hello''"]
        sendDiscordMessage_fallback [where t = "[]" and env = channels_down_env and cfg = full_cfg
          and channelId = "''general''" and content = "Plain ''hello''"]
  by (simp add: sendDiscordMessage_def try_backup_def notify_admin_def logToFile_def Let_def
        primary_down_env_def dead_env_def channels_down_env_def idle_env_def full_cfg_def
        plain_cfg_def added_def)

lemma degraded_not_rich: "\<not> is_rich (degraded content)"
  by (simp add: degraded_def)

lemma sendDiscordMessage_plain:
  assumes "\<not> is_rich content"
  shows "\<exists>evs. snd (sendDiscordMessage env cfg ch content t) = t @ evs \<and>
           filter rich_send evs = [] \<and> length (filter delivered evs) \<le> 1"
proof -
  from sendDiscordMessage_props [of env cfg ch content t]
  obtain evs where p: "snd (sendDiscordMessage env cfg ch content t) = t @ evs \<and>
     (\<forall>c p outcome. ChannelSend c p outcome \<in> set evs \<longrightarrow>
           (c = ch \<and> p = content) \<or>
           (BACKUP_CHANNEL_ID cfg = Some c \<and> c \<noteq> [] \<and> c \<noteq> ch \<and> p = degraded content \<and>
            ChannelSend ch content None \<notin> set evs)) \<and>
     (\<forall>b p. ChannelSend b p None \<in> set evs \<and> b \<noteq> ch \<longrightarrow>
           fst (sendDiscordMessage env cfg ch content t) = Some (Message b p) \<and>
           filter admin_event evs = []) \<and>
     (ChannelSend ch content None \<in> set evs \<longrightarrow>
           fst (sendDiscordMessage env cfg ch content t) = Some (Message ch content) \<and>
           evs = [ChannelSend ch content None]) \<and>
     (\<forall>a. fst (sendDiscordMessage env cfg ch content t) = None \<and>
           DISCORD_ADMIN_ID cfg = Some a \<and> a \<noteq> [] \<longrightarrow>
           (\<exists>outcome. UserFetch a outcome \<in> set evs)) \<and>
     (fst (sendDiscordMessage env cfg ch content t) \<noteq> None) =
           (\<exists>c p. ChannelSend c p None \<in> set evs) \<and>
     length (filter delivered evs) \<le> 1" ..
  note sends = p [THEN conjunct2, THEN conjunct1, rule_format]
  have "\<not> rich_send e" if "e \<in> set evs" for e
  proof (cases e)
    case (ChannelSend c q outcome)
    with that sends [of c q outcome] have "q = content \<or> q = degraded content"
      by blast
    with assms degraded_not_rich [of content] ChannelSend show ?thesis
      by auto
  qed simp_all
  then have "filter rich_send evs = []"
    by (simp add: filter_empty_conv)
  with p show ?thesis
    by blast
qed

lemma sendContestsReminder_empty:
  "sendContestsReminder env cfg platform [] t =
     (Undefined,
      snd (sendDiscordMessage env cfg (CHANNEL_ID cfg) (Plain (no_contests_text platform))
             (t @ [Log (''Sending '' @ platform @ '' contest reminder, found 0 contests'')])))"
  by (simp add: sendContestsReminder_def Let_def logToFile_def split_beta)

text \<open>
  Claim C6. On the empty list, for every platform label, the composer hands exactly one
  message to the delivery service, the plain \<open>no contests\<close> text; no send of the run
  carries an embed, at most one send is delivered, and when the primary channel accepts
  the message the run consists of the log line and that one send.
\<close>

theorem empty_list_plain_message:
  "sendContestsReminder env cfg platform [] t =
     (Undefined,
      snd (sendDiscordMessage env cfg (CHANNEL_ID cfg) (Plain (no_contests_text platform))
             (t @ [Log (''Sending '' @ platform @ '' contest reminder, found 0 contests'')]))) \<and>
   filter rich_send (added t (snd (sendContestsReminder env cfg platform [] t))) = [] \<and>
   length (filter delivered (added t (snd (sendContestsReminder env cfg platform [] t)))) \<le> 1 \<and>
   (cache_get env (t @ [Log (''Sending '' @ platform @ '' contest reminder, found 0 contests'')])
        (CHANNEL_ID cfg) \<and>
    channel_send env (t @ [Log (''Sending '' @ platform @ '' contest reminder, found 0 contests'')])
        (CHANNEL_ID cfg) (Plain (no_contests_text platform)) = None \<longrightarrow>
      added t (snd (sendContestsReminder env cfg platform [] t)) =
        [Log (''Sending '' @ platform @ '' contest reminder, found 0 contests''),
         ChannelSend (CHANNEL_ID cfg) (Plain (no_contests_text platform)) None])"
proof -
  define line where "line = Log (''Sending '' @ platform @ '' contest reminder, found 0 contests'')"
  have line [simp]: "\<not> rich_send line" "\<not> delivered line"
    by (simp_all add: line_def)
  have run: "sendContestsReminder env cfg platform [] t =
     (Undefined,
      snd (sendDiscordMessage env cfg (CHANNEL_ID cfg) (Plain (no_contests_text platform))
             (t @ [line])))"
    unfolding line_def by (rule sendContestsReminder_empty)
  from sendDiscordMessage_plain [of "Plain (no_contests_text platform)" env cfg "CHANNEL_ID cfg" "t @ [line]"]
  obtain evs where evs: "snd (sendDiscordMessage env cfg (CHANNEL_ID cfg)
       (Plain (no_contests_text platform)) (t @ [line])) = (t @ [line]) @ evs"
    and plain: "filter rich_send evs = []" and one: "length (filter delivered evs) \<le> 1"
    by auto
  have ad: "added t (snd (sendContestsReminder env cfg platform [] t)) = line # evs"
    by (simp add: run evs added_def)
  have ok: "added t (snd (sendContestsReminder env cfg platform [] t)) =
        [line, ChannelSend (CHANNEL_ID cfg) (Plain (no_contests_text platform)) None]"
    if "cache_get env (t @ [line]) (CHANNEL_ID cfg) \<and>
        channel_send env (t @ [line]) (CHANNEL_ID cfg) (Plain (no_contests_text platform)) = None"
    using that by (simp add: run added_def sendDiscordMessage_primary_ok)
  have r2: "filter rich_send (added t (snd (sendContestsReminder env cfg platform [] t))) = []"
    by (simp add: ad plain)
  have r3: "length (filter delivered (added t (snd (sendContestsReminder env cfg platform [] t)))) \<le> 1"
    using one by (simp add: ad)
  show ?thesis
  proof (intro conjI impI)
    show "sendContestsReminder env cfg platform [] t =
     (Undefined,
      snd (sendDiscordMessage env cfg (CHANNEL_ID cfg) (Plain (no_contests_text platform))
             (t @ [Log (''Sending '' @ platform @ '' contest reminder, found 0 contests'')])))"
      by (rule sendContestsReminder_empty)
    show "filter rich_send (added t (snd (sendContestsReminder env cfg platform [] t))) = []"
      by (rule r2)
    show "length (filter delivered (added t (snd (sendContestsReminder env cfg platform [] t)))) \<le> 1"
      by (rule r3)
    assume "cache_get env (t @ [Log (''Sending '' @ platform @ '' contest reminder, found 0 contests'')])
        (CHANNEL_ID cfg) \<and>
      channel_send env (t @ [Log (''Sending '' @ platform @ '' contest reminder, found 0 contests'')])
        (CHANNEL_ID cfg) (Plain (no_contests_text platform)) = None"
    then show "added t (snd (sendContestsReminder env cfg platform [] t)) =
        [Log (''Sending '' @ platform @ '' contest reminder, found 0 contests''),
         ChannelSend (CHANNEL_ID cfg) (Plain (no_contests_text platform)) None]"
      by (rule ok [unfolded line_def])
  qed
qed

theorem empty_list_plain_message_witness:
  "fst (sendContestsReminder idle_env plain_cfg ''CodeChef'' [] []) = Undefined \<and>
   added [] (snd (sendContestsReminder idle_env plain_cfg ''CodeChef'' [] [])) =
     [Log ''Sending CodeChef contest reminder, found 0 contests'',
      ChannelSend ''general'' (Plain (no_contests_text ''CodeChef'')) None] \<and>
   filter rich_send (added [] (snd (sendContestsReminder dead_env full_cfg ''CodeChef'' [] []))) = []"
proof -
  note idle = empty_list_plain_message [of idle_env plain_cfg "''CodeChef''" "[]"]
  note dead = empty_list_plain_message [of dead_env full_cfg "''CodeChef''" "[]"]
  have reach: "cache_get idle_env s (CHANNEL_ID plain_cfg) \<and>
               channel_send idle_env s (CHANNEL_ID plain_cfg) p = None" for s p
    by (simp add: idle_env_def)
  have "fst (sendContestsReminder idle_env plain_cfg ''CodeChef'' [] []) = Undefined"
    using idle [THEN conjunct1] by simp
  moreover have "added [] (snd (sendContestsReminder idle_env plain_cfg ''CodeChef'' [] [])) =
     [Log ''Sending CodeChef contest reminder, found 0 contests'',
      ChannelSend ''general'' (Plain (no_contests_text ''CodeChef'')) None]"
    using idle [THEN conjunct2, THEN conjunct2, THEN conjunct2, rule_format, OF reach]
    by (simp add: plain_cfg_def)
  moreover note dead [THEN conjunct2, THEN conjunct1]
  ultimately show ?thesis
    by (intro conjI)
qed


subsection \<open>Combined reminder\<close>

lemma sendContestsReminder_empty_run:
  "\<exists>evs. sendContestsReminder env cfg platform [] t =
           (Undefined,
            t @ Log (''Sending '' @ platform @ '' contest reminder, found 0 contests'') # evs) \<and>
         snd (sendDiscordMessage env cfg (CHANNEL_ID cfg) (Plain (no_contests_text platform))
                (t @ [Log (''Sending '' @ platform @ '' contest reminder, found 0 contests'')])) =
           (t @ [Log (''Sending '' @ platform @ '' contest reminder, found 0 contests'')]) @ evs \<and>
         filter rich_send evs = [] \<and>
         ((\<forall>s p. cache_get env s (CHANNEL_ID cfg) \<and> channel_send env s (CHANNEL_ID cfg) p = None)
            \<longrightarrow> evs = [ChannelSend (CHANNEL_ID cfg) (Plain (no_contests_text platform)) None])"
proof -
  define line where "line = Log (''Sending '' @ platform @ '' contest reminder, found 0 contests'')"
  have run: "sendContestsReminder env cfg platform [] t =
     (Undefined,
      snd (sendDiscordMessage env cfg (CHANNEL_ID cfg) (Plain (no_contests_text platform))
             (t @ [line])))"
    unfolding line_def by (rule sendContestsReminder_empty)
  from sendDiscordMessage_plain [of "Plain (no_contests_text platform)" env cfg "CHANNEL_ID cfg" "t @ [line]"]
  obtain evs where evs: "snd (sendDiscordMessage env cfg (CHANNEL_ID cfg)
       (Plain (no_contests_text platform)) (t @ [line])) = (t @ [line]) @ evs"
    and plain: "filter rich_send evs = []"
    by auto
  have ok: "evs = [ChannelSend (CHANNEL_ID cfg) (Plain (no_contests_text platform)) None]"
    if "\<forall>s p. cache_get env s (CHANNEL_ID cfg) \<and> channel_send env s (CHANNEL_ID cfg) p = None"
  proof -
    from that have "cache_get env (t @ [line]) (CHANNEL_ID cfg)"
      and "channel_send env (t @ [line]) (CHANNEL_ID cfg) (Plain (no_contests_text platform)) = None"
      by simp_all
    then have "sendDiscordMessage env cfg (CHANNEL_ID cfg) (Plain (no_contests_text platform)) (t @ [line]) =
           (Some (Message (CHANNEL_ID cfg) (Plain (no_contests_text platform))),
            (t @ [line]) @ [ChannelSend (CHANNEL_ID cfg) (Plain (no_contests_text platform)) None])"
      by (rule sendDiscordMessage_primary_ok)
    with evs show ?thesis by simp
  qed
  have "sendContestsReminder env cfg platform [] t = (Undefined, t @ line # evs)"
    by (simp add: run evs)
  with plain ok evs show ?thesis
    unfolding line_def by blast
qed

text \<open>
  Claim C8. When both adapters return the empty list, the combined reminder makes two
  deliveries, one after the other: the plain \<open>no contests\<close> message for LeetCode and the
  plain \<open>no contests\<close> message for CodeChef. Neither carries an embed, and when the
  channel accepts them the run holds exactly these two sends.
\<close>

theorem sendCombinedReminder_both_empty:
  "fetchLeetCodeContests env
      (t @ [Log (''Starting combined reminder function at: '' @ iso_now env t),
            SetLastCheck (iso_now env (t @ [Log (''Starting combined reminder function at: ''
                                                   @ iso_now env t)]))]) = ([], t2) \<and>
   fetchCodeChefContests env (t2 @ [Log ''Fetched 0 LeetCode contests'']) = ([], t4) \<longrightarrow>
   (\<exists>evs1 evs2.
      sendCombinedReminder env cfg t =
        (True,
         t4 @ [Log ''Fetched 0 CodeChef contests'',
               Log ''Sending LeetCode contest reminder, found 0 contests'']
            @ evs1 @ [Log ''Sending CodeChef contest reminder, found 0 contests'']
            @ evs2 @ [Log ''Combined reminder sent successfully. LeetCode: undefined, CodeChef: undefined'']) \<and>
      snd (sendDiscordMessage env cfg (CHANNEL_ID cfg) (Plain (no_contests_text ''LeetCode''))
             (t4 @ [Log ''Fetched 0 CodeChef contests'',
                    Log ''Sending LeetCode contest reminder, found 0 contests''])) =
        (t4 @ [Log ''Fetched 0 CodeChef contests'',
               Log ''Sending LeetCode contest reminder, found 0 contests'']) @ evs1 \<and>
      snd (sendDiscordMessage env cfg (CHANNEL_ID cfg) (Plain (no_contests_text ''CodeChef''))
             (t4 @ [Log ''Fetched 0 CodeChef contests'',
                    Log ''Sending LeetCode contest reminder, found 0 contests'']
                 @ evs1 @ [Log ''Sending CodeChef contest reminder, found 0 contests''])) =
        (t4 @ [Log ''Fetched 0 CodeChef contests'',
               Log ''Sending LeetCode contest reminder, found 0 contests'']
            @ evs1 @ [Log ''Sending CodeChef contest reminder, found 0 contests'']) @ evs2 \<and>
      filter rich_send evs1 = [] \<and> filter rich_send evs2 = [] \<and>
      ((\<forall>s p. cache_get env s (CHANNEL_ID cfg) \<and> channel_send env s (CHANNEL_ID cfg) p = None) \<longrightarrow>
         evs1 = [ChannelSend (CHANNEL_ID cfg) (Plain (no_contests_text ''LeetCode'')) None] \<and>
         evs2 = [ChannelSend (CHANNEL_ID cfg) (Plain (no_contests_text ''CodeChef'')) None]))"
proof
  let ?t1 = "t @ [Log (''Starting combined reminder function at: '' @ iso_now env t),
            SetLastCheck (iso_now env (t @ [Log (''Starting combined reminder function at: ''
                                                   @ iso_now env t)]))]"
  assume fetched: "fetchLeetCodeContests env ?t1 = ([], t2) \<and>
     fetchCodeChefContests env (t2 @ [Log ''Fetched 0 LeetCode contests'']) = ([], t4)"
  define t5 where "t5 = t4 @ [Log ''Fetched 0 CodeChef contests'']"
  define l1 where "l1 = Log ''Sending LeetCode contest reminder, found 0 contests''"
  define l2 where "l2 = Log ''Sending CodeChef contest reminder, found 0 contests''"
  define fin where "fin = Log ''Combined reminder sent successfully. LeetCode: undefined, CodeChef: undefined''"
  from sendContestsReminder_empty_run [of env cfg "''LeetCode''" t5]
  obtain evs1 where lc: "sendContestsReminder env cfg ''LeetCode'' [] t5 = (Undefined, t5 @ l1 # evs1)"
    and d1: "snd (sendDiscordMessage env cfg (CHANNEL_ID cfg) (Plain (no_contests_text ''LeetCode''))
                (t5 @ [l1])) = (t5 @ [l1]) @ evs1"
    and p1: "filter rich_send evs1 = []"
    and o1: "(\<forall>s p. cache_get env s (CHANNEL_ID cfg) \<and> channel_send env s (CHANNEL_ID cfg) p = None)
            \<longrightarrow> evs1 = [ChannelSend (CHANNEL_ID cfg) (Plain (no_contests_text ''LeetCode'')) None]"
    unfolding l1_def by auto
  define t6 where "t6 = t5 @ l1 # evs1"
  from sendContestsReminder_empty_run [of env cfg "''CodeChef''" t6]
  obtain evs2 where cc: "sendContestsReminder env cfg ''CodeChef'' [] t6 = (Undefined, t6 @ l2 # evs2)"
    and d2: "snd (sendDiscordMessage env cfg (CHANNEL_ID cfg) (Plain (no_contests_text ''CodeChef''))
                (t6 @ [l2])) = (t6 @ [l2]) @ evs2"
    and p2: "filter rich_send evs2 = []"
    and o2: "(\<forall>s p. cache_get env s (CHANNEL_ID cfg) \<and> channel_send env s (CHANNEL_ID cfg) p = None)
            \<longrightarrow> evs2 = [ChannelSend (CHANNEL_ID cfg) (Plain (no_contests_text ''CodeChef'')) None]"
    unfolding l2_def by auto
  have run: "sendCombinedReminder env cfg t = (True, t6 @ l2 # evs2 @ [fin])"
    using fetched lc [unfolded t5_def] cc [unfolded t6_def t5_def]
    by (simp add: sendCombinedReminder_def Let_def logToFile_def t5_def t6_def fin_def)
  show "\<exists>evs1 evs2.
      sendCombinedReminder env cfg t =
        (True,
         t4 @ [Log ''Fetched 0 CodeChef contests'',
               Log ''Sending LeetCode contest reminder, found 0 contests'']
            @ evs1 @ [Log ''Sending CodeChef contest reminder, found 0 contests'']
            @ evs2 @ [Log ''Combined reminder sent successfully. LeetCode: undefined, CodeChef: undefined'']) \<and>
      snd (sendDiscordMessage env cfg (CHANNEL_ID cfg) (Plain (no_contests_text ''LeetCode''))
             (t4 @ [Log ''Fetched 0 CodeChef contests'',
                    Log ''Sending LeetCode contest reminder, found 0 contests''])) =
        (t4 @ [Log ''Fetched 0 CodeChef contests'',
               Log ''Sending LeetCode contest reminder, found 0 contests'']) @ evs1 \<and>
      snd (sendDiscordMessage env cfg (CHANNEL_ID cfg) (Plain (no_contests_text ''CodeChef''))
             (t4 @ [Log ''Fetched 0 CodeChef contests'',
                    Log ''Sending LeetCode contest reminder, found 0 contests'']
                 @ evs1 @ [Log ''Sending CodeChef contest reminder, found 0 contests''])) =
        (t4 @ [Log ''Fetched 0 CodeChef contests'',
               Log ''Sending LeetCode contest reminder, found 0 contests'']
            @ evs1 @ [Log ''Sending CodeChef contest reminder, found 0 contests'']) @ evs2 \<and>
      filter rich_send evs1 = [] \<and> filter rich_send evs2 = [] \<and>
      ((\<forall>s p. cache_get env s (CHANNEL_ID cfg) \<and> channel_send env s (CHANNEL_ID cfg) p = None) \<longrightarrow>
         evs1 = [ChannelSend (CHANNEL_ID cfg) (Plain (no_contests_text ''LeetCode'')) None] \<and>
         evs2 = [ChannelSend (CHANNEL_ID cfg) (Plain (no_contests_text ''CodeChef'')) None])"
  proof (rule exI [of _ evs1], rule exI [of _ evs2], intro conjI impI)
    show "sendCombinedReminder env cfg t =
        (True,
         t4 @ [Log ''Fetched 0 CodeChef contests'',
               Log ''Sending LeetCode contest reminder, found 0 contests'']
            @ evs1 @ [Log ''Sending CodeChef contest reminder, found 0 contests'']
            @ evs2 @ [Log ''Combined reminder sent successfully. LeetCode: undefined, CodeChef: undefined''])"
      by (simp add: run t6_def t5_def l1_def l2_def fin_def)
    show "snd (sendDiscordMessage env cfg (CHANNEL_ID cfg) (Plain (no_contests_text ''LeetCode''))
             (t4 @ [Log ''Fetched 0 CodeChef contests'',
                    Log ''Sending LeetCode contest reminder, found 0 contests''])) =
        (t4 @ [Log ''Fetched 0 CodeChef contests'',
               Log ''Sending LeetCode contest reminder, found 0 contests'']) @ evs1"
      using d1 by (simp add: t5_def l1_def)
    show "snd (sendDiscordMessage env cfg (CHANNEL_ID cfg) (Plain (no_contests_text ''CodeChef''))
             (t4 @ [Log ''Fetched 0 CodeChef contests'',
                    Log ''Sending LeetCode contest reminder, found 0 contests'']
                 @ evs1 @ [Log ''Sending CodeChef contest reminder, found 0 contests''])) =
        (t4 @ [Log ''Fetched 0 CodeChef contests'',
               Log ''Sending LeetCode contest reminder, found 0 contests'']
            @ evs1 @ [Log ''Sending CodeChef contest reminder, found 0 contests'']) @ evs2"
      using d2 by (simp add: t6_def t5_def l1_def l2_def)
    show "filter rich_send evs1 = []" by (rule p1)
    show "filter rich_send evs2 = []" by (rule p2)
    assume reach: "\<forall>s p. cache_get env s (CHANNEL_ID cfg) \<and> channel_send env s (CHANNEL_ID cfg) p = None"
    show "evs1 = [ChannelSend (CHANNEL_ID cfg) (Plain (no_contests_text ''LeetCode'')) None]"
      using o1 reach by (rule mp)
    show "evs2 = [ChannelSend (CHANNEL_ID cfg) (Plain (no_contests_text ''CodeChef'')) None]"
      using o2 reach by (rule mp)
  qed
qed

theorem sendCombinedReminder_both_empty_witness:
  "fst (sendCombinedReminder quiet_env plain_cfg []) = True \<and>
   filter is_ChannelSend (snd (sendCombinedReminder quiet_env plain_cfg [])) =
     [ChannelSend ''general'' (Plain (no_contests_text ''LeetCode'')) None,
      ChannelSend ''general'' (Plain (no_contests_text ''CodeChef'')) None]"
proof -
  let ?t1 = "[] @ [Log (''Starting combined reminder function at: '' @ iso_now quiet_env []),
            SetLastCheck (iso_now quiet_env ([] @ [Log (''Starting combined reminder function at: ''
                                                   @ iso_now quiet_env [])]))]"
  have lc: "fetchLeetCodeContests quiet_env ?t1 = ([], ?t1 @ [Invoke ''LeetCode''])"
    by (simp add: fetchLeetCodeContests_def fetch_retry_ok_eval fetchLeetCodeContests_op_def
          quiet_env_def idle_env_def)
  have cc: "fetchCodeChefContests quiet_env ((?t1 @ [Invoke ''LeetCode'']) @ [Log ''Fetched 0 LeetCode contests'']) =
              ([], ((?t1 @ [Invoke ''LeetCode'']) @ [Log ''Fetched 0 LeetCode contests''])
                     @ [Invoke ''CodeChef''])"
    by (simp add: fetchCodeChefContests_def fetch_retry_ok_eval fetchCodeChefContests_op_def
          quiet_env_def idle_env_def)
  have reach: "\<forall>s p. cache_get quiet_env s (CHANNEL_ID plain_cfg) \<and>
                      channel_send quiet_env s (CHANNEL_ID plain_cfg) p = None"
    by (simp add: quiet_env_def idle_env_def)
  from sendCombinedReminder_both_empty [of quiet_env "[]" _ _ plain_cfg, rule_format,
         OF conjI [OF lc cc]]
  obtain evs1 evs2 where run: "sendCombinedReminder quiet_env plain_cfg [] =
        (True,
         (((?t1 @ [Invoke ''LeetCode'']) @ [Log ''Fetched 0 LeetCode contests''])
                     @ [Invoke ''CodeChef'']) @ [Log ''Fetched 0 CodeChef contests'',
               Log ''Sending LeetCode contest reminder, found 0 contests'']
            @ evs1 @ [Log ''Sending CodeChef contest reminder, found 0 contests'']
            @ evs2 @ [Log ''Combined reminder sent successfully. LeetCode: undefined, CodeChef: undefined''])"
    and both: "(\<forall>s p. cache_get quiet_env s (CHANNEL_ID plain_cfg) \<and>
                      channel_send quiet_env s (CHANNEL_ID plain_cfg) p = None) \<longrightarrow>
         evs1 = [ChannelSend (CHANNEL_ID plain_cfg) (Plain (no_contests_text ''LeetCode'')) None] \<and>
         evs2 = [ChannelSend (CHANNEL_ID plain_cfg) (Plain (no_contests_text ''CodeChef'')) None]"
    by blast
  from both reach have
    "evs1 = [ChannelSend (CHANNEL_ID plain_cfg) (Plain (no_contests_text ''LeetCode'')) None]"
    "evs2 = [ChannelSend (CHANNEL_ID plain_cfg) (Plain (no_contests_text ''CodeChef'')) None]"
    by blast+
  with run show ?thesis
    by (simp add: plain_cfg_def)
qed

subsection \<open>Scheduler\<close>

lemma validateCronExpression_returns:
  assumes "cron_validate env expr = Inr answer"
  shows "validateCronExpression env expr name t = (True, t)"
  using assms by (simp add: validateCronExpression_def)

lemma validateCronExpression_throws:
  assumes "cron_validate env expr = Inl error_message"
  shows "validateCronExpression env expr name t =
           (False, t @ [Log (''Invalid cron expression for '' @ name @ '': '' @ expr),
                        Log (''Error: '' @ error_message)])"
  using assms by (simp add: validateCronExpression_def logToFile_def)

lemma schedule_jobs_skips_thrown:
  assumes "cron_validate env (job_expression job) = Inl error_message"
  shows "schedule_jobs env (job # jobs) t =
           schedule_jobs env jobs
             (t @ [Log (''Invalid cron expression for '' @ job_name job @ '': ''
                          @ job_expression job),
                   Log (''Error: '' @ error_message),
                   Log (''Failed to schedule job: '' @ job_name job)])"
  using assms by (simp add: validateCronExpression_throws logToFile_def)

text \<open>
  Claim C5 says that an entry with an invalid expression is logged and not registered,
  and that the other entries are still registered. The validation step skips an entry
  only when \<open>cron.validate\<close> throws; the boolean it returns is not read, so an
  expression the library answers \<open>false\<close> for passes validation, is handed to
  \<open>cron.schedule\<close> and is reported as scheduled, and nothing is logged as invalid. When
  \<open>cron.schedule\<close> throws on it, the loop is left and no other entry is registered.
\<close>

theorem invalid_expression_is_scheduled:
  "cron_validate answering_env (job_expression broken_job) = Inr False \<and>
   validateCronExpression answering_env (job_expression broken_job) (job_name broken_job) [] =
     (True, []) \<and>
   schedule_jobs answering_env (broken_job # cronJobs) [] =
     (None,
      [CronSchedule ''61 25 * * *'' ''Broken'' None,
       Log ''Scheduled: Broken - never'',
       CronSchedule ''30 12 * * 6'' ''LeetCode Saturday'' None,
       Log ''Scheduled: LeetCode Saturday - LeetCode on Saturdays at 6:00 PM IST (12:30 UTC)'',
       CronSchedule ''30 12 * * 3'' ''CodeChef Wednesday'' None,
       Log ''Scheduled: CodeChef Wednesday - CodeChef on Wednesdays at 6:00 PM IST (12:30 UTC)'',
       CronSchedule ''0 10 * * 0'' ''Combined Sunday'' None,
       Log ''Scheduled: Combined Sunday - Combined reminder on Sundays at 3:30 PM IST (10:00 UTC)'',
       CronSchedule ''*/30 * * * *'' ''Ten-minute warnings'' None,
       Log ''Scheduled: Ten-minute warnings - Schedule ten-minute reminders every 30 mins'']) \<and>
   schedule_jobs rejecting_env (broken_job # cronJobs) [] =
     (Some ''61 25 * * * is a invalid expression'',
      [CronSchedule ''61 25 * * *'' ''Broken'' (Some ''61 25 * * * is a invalid expression'')])"
  by (simp add: validateCronExpression_def logToFile_def cronJobs_def broken_job_def
        answering_env_def rejecting_env_def idle_env_def Let_def)

end
